theory Spec2Isabelle
  imports Complex_Main "HOL-Library.Log_Nat"
begin

section \<open>Python values and exceptions\<close>

text \<open>
  The exceptions the modelled code can raise. \<open>Exception\<close> carries the message of an
  explicit \<^verbatim>\<open>raise Exception(...)\<close>; the others are the built-in exceptions of
  indexing, dictionary lookup, \<^verbatim>\<open>len\<close>/iteration over a non-sequence,
  \<^verbatim>\<open>int(str)\<close> and \<^verbatim>\<open>int(float)\<close>. \<open>ExternalError\<close> stands for a failure inside a
  collaborator that is not part of the modelled code (image codec, JSON reader, image
  rescaling, opening a file for writing).
\<close>

datatype error =
    Exception string
  | IndexError
  | KeyError
  | TypeError
  | ValueError
  | OverflowError
  | ExternalError

text \<open>\<^verbatim>\<open>range(n)\<close> of Python: empty for \<open>n \<le> 0\<close>.\<close>

definition py_range :: "int \<Rightarrow> int list" where
  "py_range n = map int [0..<nat n]"

text \<open>Reading and writing a Python list by a non-negative index; out of range raises.\<close>

definition list_get :: "'a list \<Rightarrow> nat \<Rightarrow> error + 'a" where
  "list_get xs i = (if i < length xs then Inr (xs ! i) else Inl IndexError)"

definition list_set :: "'a list \<Rightarrow> nat \<Rightarrow> 'a \<Rightarrow> error + 'a list" where
  "list_set xs i v = (if i < length xs then Inr (xs[i := v]) else Inl IndexError)"

section \<open>Hit testing (ui\_extra.py, is\_on and is\_on\_w)\<close>

text \<open>
  Points are pairs of whole pixel coordinates. The two local helpers of \<^verbatim>\<open>is_on\<close>
  keep their names, with a suffix where the name is taken.
\<close>

type_synonym point = "int \<times> int"

definition collinear3 :: "point \<Rightarrow> point \<Rightarrow> point \<Rightarrow> bool" where
  "collinear3 a b c \<longleftrightarrow>
     (fst b - fst a) * (snd c - snd a) = (fst c - fst a) * (snd b - snd a)"

definition within_incl :: "int \<Rightarrow> int \<Rightarrow> int \<Rightarrow> bool" where
  "within_incl p q r \<longleftrightarrow> (p \<le> q \<and> q \<le> r) \<or> (r \<le> q \<and> q \<le> p)"

definition is_on :: "point \<Rightarrow> point \<Rightarrow> point \<Rightarrow> bool" where
  "is_on a b c \<longleftrightarrow>
     collinear3 a b c \<and>
     (if fst a \<noteq> fst b then within_incl (fst a) (fst c) (fst b)
      else within_incl (snd a) (snd c) (snd b))"

text \<open>
  The two nested \<^verbatim>\<open>for\<close> loops of \<^verbatim>\<open>is_on_w\<close> return \<open>True\<close> at the first
  candidate that passes and \<open>False\<close> when none does: an existential over both ranges.
\<close>

definition is_on_w :: "point \<Rightarrow> point \<Rightarrow> point \<Rightarrow> int \<Rightarrow> bool" where
  "is_on_w a b c delta \<longleftrightarrow>
     list_ex (\<lambda>i. list_ex (\<lambda>j. is_on a b (fst c + i - 1, snd c + j - 1))
                     (py_range (delta * 3)))
             (py_range (delta * 3))"

section \<open>The draggable mask (ui\_extra.py, class ImageMask)\<close>

text \<open>
  The canvas is the GUI toolkit's. Of it the mask uses the conversion of window
  coordinates to canvas coordinates, taken here as two functions, and the items it draws:
  the outline rectangle, kept as the four coordinates last given to it (\<open>None\<close> when the
  item does not exist), and the four shading polygons, kept as their point lists.
\<close>

record tkcanvas =
  canvasx :: "int \<Rightarrow> int"
  canvasy :: "int \<Rightarrow> int"

record ImageMask =
  image_shape :: "int \<times> int"  \<comment> \<open>(height, width)\<close>
  min_dist :: int
  allow_change :: bool
  mask_list :: "int list"  \<comment> \<open>the attribute \<^verbatim>\<open>mask\<close>: [left, top, right, bottom]\<close>
  mask_area :: "int list list option"
  mask_rect :: "(int \<times> int \<times> int \<times> int) option"
  drag_side :: "int option"

definition default_mask :: "ImageMask \<Rightarrow> ImageMask" where
  "default_mask m = m\<lparr>mask_list :=
     [min_dist m, min_dist m,
      snd (image_shape m) - min_dist m, fst (image_shape m) - min_dist m]\<rparr>"

definition get_mask_rect_side :: "tkcanvas \<Rightarrow> ImageMask \<Rightarrow> int \<Rightarrow> int \<Rightarrow> int option" where
  "get_mask_rect_side cv m x y =
     (case mask_rect m of
        None \<Rightarrow> None
      | Some (b0, b1, b2, b3) \<Rightarrow>
          (let p = (canvasx cv x, canvasy cv y) in
           if is_on_w (b0, b1) (b0, b3) p 1 then Some 0
           else if is_on_w (b0, b1) (b2, b1) p 1 then Some 1
           else if is_on_w (b2, b1) (b2, b3) p 1 then Some 2
           else if is_on_w (b0, b3) (b2, b3) p 1 then Some 3
           else None))"

text \<open>
  \<^verbatim>\<open>draw_mask_shading\<close> replaces the four shading polygons. It reads all four entries
  of the mask; the caller below checks the length first, as the read of
  \<^verbatim>\<open>self.mask[3]\<close> before it would have raised.
\<close>

definition draw_mask_shading :: "ImageMask \<Rightarrow> ImageMask" where
  "draw_mask_shading m =
     (let ix = snd (image_shape m); iy = fst (image_shape m);
          mx = mask_list m ! 0; my = mask_list m ! 1;
          wx = mask_list m ! 2; wy = mask_list m ! 3
      in m\<lparr>mask_area := Some
           [[0, 0, ix, 0, ix, my, 0, my, 0, 0],
            [0, my, mx, my, mx, iy, 0, iy, 0, my],
            [mx, wy, ix, wy, ix, iy, mx, iy, mx, wy],
            [wx, my, ix, my, ix, wy, wx, wy, wx, my]]\<rparr>)"

text \<open>
  \<^verbatim>\<open>drag_callback\<close>. The result is the mask object after the call and the exception
  raised, if any: an assignment to a missing list entry raises before anything changes,
  a mask shorter than four entries raises at the redraw, after the assignment.
\<close>

definition drag_callback :: "tkcanvas \<Rightarrow> ImageMask \<Rightarrow> int \<times> int \<Rightarrow> ImageMask \<times> error option" where
  "drag_callback cv m0 ev =
     (let m = (if drag_side m0 = None
               then m0\<lparr>drag_side := get_mask_rect_side cv m0 (fst ev) (snd ev)\<rparr>
               else m0)
      in case drag_side m of
           None \<Rightarrow> (m, None)
         | Some sd \<Rightarrow>
             (let p = (canvasx cv (fst ev), canvasy cv (snd ev));
                  upd =
                    (if sd = 0 then list_set (mask_list m) 0 (max (fst p) (min_dist m))
                     else if sd = 1 then list_set (mask_list m) 1 (max (snd p) (min_dist m))
                     else if sd = 2 then
                       list_set (mask_list m) 2 (min (fst p) (snd (image_shape m) - min_dist m))
                     else if sd = 3 then
                       list_set (mask_list m) 3 (min (snd p) (fst (image_shape m) - min_dist m))
                     else Inr (mask_list m))
              in case upd of
                   Inl e \<Rightarrow> (m, Some e)
                 | Inr ml \<Rightarrow>
                     (let m1 = m\<lparr>mask_list := ml\<rparr> in
                      if length ml < 4 then (m1, Some IndexError)
                      else
                        (let m2 = (case mask_rect m1 of
                                     None \<Rightarrow> m1
                                   | Some _ \<Rightarrow>
                                       m1\<lparr>mask_rect := Some (ml ! 0, ml ! 1, ml ! 2, ml ! 3)\<rparr>)
                         in (draw_mask_shading m2, None)))))"

definition end_drag_callback :: "ImageMask \<Rightarrow> ImageMask" where
  "end_drag_callback m = m\<lparr>drag_side := None\<rparr>"

section \<open>Strings: upper case, ord and int(str)\<close>

text \<open>
  Strings are ASCII here. \<^verbatim>\<open>str.upper\<close> maps the letters a..z to A..Z and leaves
  every other character; \<^verbatim>\<open>ord\<close> is the character code.
\<close>

definition py_ord :: "char \<Rightarrow> int" where
  "py_ord ch = int (of_char ch)"

definition py_upper :: "char \<Rightarrow> char" where
  "py_upper ch =
     (if 97 \<le> (of_char ch :: nat) \<and> (of_char ch :: nat) \<le> 122
      then char_of ((of_char ch :: nat) - 32) else ch)"

text \<open>
  The white space that \<^verbatim>\<open>int(s)\<close> drops from an ASCII string: tab, line feed,
  vertical tab, form feed, carriage return (codes 9 to 13) and the space (code 32).
\<close>

definition py_isspace :: "char \<Rightarrow> bool" where
  "py_isspace ch \<longleftrightarrow>
     (9 \<le> (of_char ch :: nat) \<and> (of_char ch :: nat) \<le> 13) \<or> (of_char ch :: nat) = 32"

definition py_isdigit :: "char \<Rightarrow> bool" where
  "py_isdigit ch \<longleftrightarrow> 48 \<le> (of_char ch :: nat) \<and> (of_char ch :: nat) \<le> 57"

definition digit_val :: "char \<Rightarrow> int" where
  "digit_val ch = int (of_char ch) - 48"

text \<open>
  \<^verbatim>\<open>int(s)\<close> in base ten: surrounding white space is dropped, one sign is allowed,
  then digits, where single underscores may stand between two digits. Anything else
  raises \<^verbatim>\<open>ValueError\<close>. \<open>parse_digits\<close> reads what follows a digit.
\<close>

fun parse_digits :: "string \<Rightarrow> int \<Rightarrow> error + int" where
  "parse_digits [] acc = Inr acc"
| "parse_digits [c] acc =
     (if py_isdigit c then Inr (acc * 10 + digit_val c) else Inl ValueError)"
| "parse_digits (c # d # ds) acc =
     (if py_isdigit c then parse_digits (d # ds) (acc * 10 + digit_val c)
      else if c = CHR ''_'' \<and> py_isdigit d then parse_digits ds (acc * 10 + digit_val d)
      else Inl ValueError)"

definition parse_unsigned :: "string \<Rightarrow> error + int" where
  "parse_unsigned s =
     (case s of
        [] \<Rightarrow> Inl ValueError
      | c # cs \<Rightarrow> if py_isdigit c then parse_digits cs (digit_val c) else Inl ValueError)"

definition py_strip :: "string \<Rightarrow> string" where
  "py_strip s = rev (dropWhile py_isspace (rev (dropWhile py_isspace s)))"

definition py_int :: "string \<Rightarrow> error + int" where
  "py_int s =
     (case py_strip s of
        [] \<Rightarrow> Inl ValueError
      | c # cs \<Rightarrow>
          if c = CHR ''-'' then
            (case parse_unsigned cs of Inl e \<Rightarrow> Inl e | Inr n \<Rightarrow> Inr (- n))
          else if c = CHR ''+'' then parse_unsigned cs
          else parse_unsigned (c # cs))"

section \<open>Floating-point numbers\<close>

text \<open>
  A Python float is an IEEE 754 binary64 number: a finite number (kept as the real number
  it stands for; the sign of a zero is not kept), an infinity (\<open>Infinity True\<close> is the
  negative one) or not-a-number.
\<close>

datatype binary64 = Finite real | Infinity bool | NaN

text \<open>
  \<open>ilog2 x\<close> is, for positive \<open>x\<close>, the exponent \<open>e\<close> with \<open>2\<^sup>e \<le> x < 2\<^sup>e\<^sup>+\<^sup>1\<close>,
  computed from the bit length of an integer.
\<close>

definition ilog2 :: "real \<Rightarrow> int" where
  "ilog2 x = (if 1 \<le> x then bitlen \<lfloor>x\<rfloor> - 1 else - bitlen (\<lceil>1 / x\<rceil> - 1))"

text \<open>Rounding to the nearest integer, a tie to the even one.\<close>

definition round_half_even :: "real \<Rightarrow> int" where
  "round_half_even y =
     (if y - of_int \<lfloor>y\<rfloor> < 1 / 2 then \<lfloor>y\<rfloor>
      else if 1 / 2 < y - of_int \<lfloor>y\<rfloor> then \<lfloor>y\<rfloor> + 1
      else if even \<lfloor>y\<rfloor> then \<lfloor>y\<rfloor> else \<lfloor>y\<rfloor> + 1)"

text \<open>
  The rounding of an exact result to binary64, in the default mode (to nearest, ties to
  even). \<open>quantum x\<close> is the spacing of the binary64 numbers around \<open>x\<close>: 53
  significant bits, and \<open>2\<^sup>-\<^sup>1\<^sup>0\<^sup>7\<^sup>4\<close> in the subnormal range. \<open>nearest64 x\<close> is the
  multiple of the quantum nearest to \<open>x\<close>; a result of magnitude \<open>2\<^sup>1\<^sup>0\<^sup>2\<^sup>4\<close> or more
  overflows to an infinity.
\<close>

definition quantum :: "real \<Rightarrow> real" where
  "quantum x = 2 powi (max (ilog2 \<bar>x\<bar> - 52) (- 1074))"

definition nearest64 :: "real \<Rightarrow> real" where
  "nearest64 x =
     (if x = 0 then 0 else of_int (round_half_even (x / quantum x)) * quantum x)"

definition round64 :: "real \<Rightarrow> binary64" where
  "round64 x = (if 2 ^ 1024 \<le> \<bar>nearest64 x\<bar> then Infinity (x < 0) else Finite (nearest64 x))"

text \<open>The product of two floats.\<close>

fun fmul :: "binary64 \<Rightarrow> binary64 \<Rightarrow> binary64" where
  "fmul (Finite x) (Finite y) = round64 (x * y)"
| "fmul (Finite x) (Infinity t) = (if x = 0 then NaN else Infinity ((x < 0) \<noteq> t))"
| "fmul (Infinity s) (Finite y) = (if y = 0 then NaN else Infinity (s \<noteq> (y < 0)))"
| "fmul (Infinity s) (Infinity t) = Infinity (s \<noteq> t)"
| "fmul NaN b = NaN"
| "fmul a NaN = NaN"

text \<open>The comparison \<^verbatim>\<open>a < b\<close> of two floats; false when one is not-a-number.\<close>

fun fless :: "binary64 \<Rightarrow> binary64 \<Rightarrow> bool" where
  "fless (Finite x) (Finite y) \<longleftrightarrow> x < y"
| "fless (Finite x) (Infinity t) \<longleftrightarrow> \<not> t"
| "fless (Infinity s) (Finite y) \<longleftrightarrow> s"
| "fless (Infinity s) (Infinity t) \<longleftrightarrow> s \<and> \<not> t"
| "fless NaN b \<longleftrightarrow> False"
| "fless a NaN \<longleftrightarrow> False"

text \<open>
  \<^verbatim>\<open>max(a, b)\<close> of Python keeps its first argument unless the second is greater.
\<close>

definition py_max :: "binary64 \<Rightarrow> binary64 \<Rightarrow> binary64" where
  "py_max a b = (if fless a b then b else a)"

text \<open>The conversion of an integer to a float, as a product with a float makes it.\<close>

definition float_of_int :: "int \<Rightarrow> binary64" where
  "float_of_int n = round64 (of_int n)"

text \<open>
  \<^verbatim>\<open>int(x)\<close> of a float: truncation toward zero; an infinity raises
  \<^verbatim>\<open>OverflowError\<close>, not-a-number \<^verbatim>\<open>ValueError\<close>.
\<close>

definition py_trunc :: "real \<Rightarrow> int" where
  "py_trunc r = (if r < 0 then \<lceil>r\<rceil> else \<lfloor>r\<rfloor>)"

definition int_of_float :: "binary64 \<Rightarrow> error + int" where
  "int_of_float x =
     (case x of
        Finite r \<Rightarrow> Inr (py_trunc r)
      | Infinity _ \<Rightarrow> Inl OverflowError
      | NaN \<Rightarrow> Inl ValueError)"

section \<open>The recognition session (board.py, class GrBoard)\<close>

subsection \<open>Data\<close>

text \<open>
  Parameter values: absent (\<^verbatim>\<open>None\<close>), a truth value, a number, or a list (a rectangle
  is a list of points, a point a list of numbers).
\<close>

datatype pval = PNone | PBool bool | PNum int | PList "pval list"

type_synonym pdict = "string \<rightharpoonup> pval"

text \<open>
  Modelled from the spec: the class \<^verbatim>\<open>GrParams\<close> (params.py) is not among the sources.
  The spec gives the parameters as a mapping of named recognition options to values;
  membership, item lookup, item assignment and \<^verbatim>\<open>get\<close> are those of a mapping, and
  assigning \<^verbatim>\<open>None\<close> stores the absent value under the key.
  Its method \<^verbatim>\<open>assign\<close> is a parameter of the model (see \<open>env\<close>).
\<close>

type_synonym GrParams = "string \<rightharpoonup> pval"

definition params_get :: "GrParams \<Rightarrow> string \<Rightarrow> pval" where
  "params_get ps k = (case ps k of None \<Rightarrow> PNone | Some v \<Rightarrow> v)"

text \<open>
  Modelled from the spec: the index constants \<^verbatim>\<open>GR_X\<close>, \<^verbatim>\<open>GR_Y\<close>, \<^verbatim>\<open>GR_A\<close>,
  \<^verbatim>\<open>GR_B\<close>, \<^verbatim>\<open>GR_R\<close> and the result keys of grdef.py are not among the sources.
  The spec gives a stone as the five-tuple (pixel x, pixel y, grid column, grid row,
  pixel radius) and the result as black-stone list, white-stone list, edge rectangle,
  grid spacing and board size (of its further entries nothing modelled here reads or
  writes). A stone list is optional: the detector may report \<^verbatim>\<open>None\<close>. The entries
  of a stone are integers (the range of the array's element type is not modelled); the
  spacing and the edge coordinates are floats (an integer among them is the float of
  the same value).
\<close>

record stone =
  GR_X :: int
  GR_Y :: int
  GR_A :: int
  GR_B :: int
  GR_R :: int

record result =
  GR_STONES_B :: "stone list option"
  GR_STONES_W :: "stone list option"
  GR_SPACING :: "binary64 \<times> binary64"
  GR_EDGES :: "(binary64 \<times> binary64) \<times> (binary64 \<times> binary64)"
  GR_BOARD_SIZE :: int

text \<open>
  Modelled from the spec: \<^verbatim>\<open>DEF_BOARD_SIZE\<close> of grdef.py is not among the sources;
  it is a parameter of \<open>board_size\<close> below.
\<close>

text \<open>
  The session. \<open>'i\<close> is the type of image buffers, which the session only stores,
  copies and hands to its collaborators.
\<close>

record 'i session =
  params :: GrParams
  res :: "result option"
  img :: "'i option"
  img_file :: "string option"
  src_img :: "'i option"
  src_img_file :: "string option"
  gen_board :: bool

text \<open>
  The collaborators outside the modelled code, as functions: the image codec
  (\<^verbatim>\<open>cv2.imread\<close>), the file system and path handling, the JSON reader, the
  perspective warp, the detector (\<^verbatim>\<open>process_img\<close>, a function of image and parameters
  as the spec gives it), the board renderer, opening a file for writing (the exception
  raised, if any), the image rescaling \<^verbatim>\<open>resize2\<close> (it returns the new image and the
  per-axis scale, two floats), the two stone finders of gr.py, and
  \<^verbatim>\<open>GrParams.assign\<close> (its last argument is \<^verbatim>\<open>copy_all\<close>, \<open>None\<close> when omitted).
\<close>

record 'i env =
  imread :: "string \<Rightarrow> 'i option"
  is_file :: "string \<Rightarrow> bool"
  with_suffix :: "string \<Rightarrow> string \<Rightarrow> string"
  json_load :: "string \<Rightarrow> error + pdict"
  assign :: "GrParams \<Rightarrow> pdict \<Rightarrow> bool option \<Rightarrow> GrParams"
  four_point_transform :: "'i option \<Rightarrow> pval list \<Rightarrow> error + 'i"
  process_img :: "'i \<Rightarrow> GrParams \<Rightarrow> result option"
  generate_board :: "int \<times> int \<Rightarrow> result option \<Rightarrow> 'i"
  open_wb :: "string \<Rightarrow> error option"
  resize2 :: "'i option \<Rightarrow> int option \<Rightarrow> error + ('i \<times> (binary64 \<times> binary64))"
  find_coord :: "int \<Rightarrow> int \<Rightarrow> stone list option \<Rightarrow> stone option"
  find_position :: "int \<Rightarrow> int \<Rightarrow> stone list option \<Rightarrow> stone option"

text \<open>
  A method's outcome is the session after the call together with the exception raised
  or the value returned.
\<close>

type_synonym ('i, 'a) outcome = "'i session \<times> (error + 'a)"

definition BOARD_PARAM_EXT :: string where
  "BOARD_PARAM_EXT = ''.gpar''"

subsection \<open>Processing, transforming, loading\<close>

definition normalize_stones :: "result \<Rightarrow> result" where
  "normalize_stones r =
     (let r1 = (if GR_STONES_B r = None then r\<lparr>GR_STONES_B := Some []\<rparr> else r)
      in if GR_STONES_W r1 = None then r1\<lparr>GR_STONES_W := Some []\<rparr> else r1)"

definition process :: "'i env \<Rightarrow> 'i session \<Rightarrow> 'i session" where
  "process e s =
     (case img s of
        None \<Rightarrow> s\<lparr>res := None\<rparr>
      | Some im \<Rightarrow>
          if gen_board s then s\<lparr>res := None\<rparr>
          else (case process_img e im (params s) of
                  None \<Rightarrow> s\<lparr>res := None\<rparr>
                | Some r \<Rightarrow> s\<lparr>res := Some (normalize_stones r)\<rparr>))"

definition generate :: "'i env \<Rightarrow> int \<times> int \<Rightarrow> 'i session \<Rightarrow> 'i session" where
  "generate e shape s =
     s\<lparr>img := Some (generate_board e shape (res s)), img_file := None, gen_board := True\<rparr>"

text \<open>The setter of the property \<^verbatim>\<open>params\<close>.\<close>

definition set_params :: "'i env \<Rightarrow> pdict \<Rightarrow> 'i session \<Rightarrow> 'i session" where
  "set_params e p s = s\<lparr>params := assign e (params s) p None, gen_board := False\<rparr>"

definition load_params :: "'i env \<Rightarrow> string \<Rightarrow> 'i session \<Rightarrow> ('i, unit) outcome" where
  "load_params e filename s =
     (case json_load e filename of
        Inl err \<Rightarrow> (s, Inl err)
      | Inr p \<Rightarrow> (s\<lparr>params := assign e (params s) p (Some True)\<rparr>, Inr ()))"

text \<open>
  \<^verbatim>\<open>transform_image\<close>: \<^verbatim>\<open>len\<close> of a value that is no list raises; a list of another
  length than four is ignored.
\<close>

definition transform_image :: "'i env \<Rightarrow> pval \<Rightarrow> 'i session \<Rightarrow> ('i, unit) outcome" where
  "transform_image e transform_rect s =
     (case transform_rect of
        PNone \<Rightarrow> (s, Inr ())
      | PList pts \<Rightarrow>
          if length pts = 4 then
            (case four_point_transform e (img s) pts of
               Inl err \<Rightarrow> (s, Inl err)
             | Inr im \<Rightarrow>
                 (s\<lparr>img := Some im, params := (params s)(''TRANSFORM'' \<mapsto> transform_rect)\<rparr>,
                  Inr ()))
          else (s, Inr ())
      | _ \<Rightarrow> (s, Inl TypeError))"

definition reset_image :: "'i session \<Rightarrow> 'i session" where
  "reset_image s =
     s\<lparr>img := src_img s,
       params := (params s)(''TRANSFORM'' \<mapsto> PNone, ''BOARD_EDGES'' \<mapsto> PNone,
                            ''BOARD_SIZE'' \<mapsto> PNone)\<rparr>"

text \<open>
  \<^verbatim>\<open>load_image\<close>. The image is read first; when it cannot be decoded the exception is
  raised before any attribute is assigned. \<^verbatim>\<open>img.copy()\<close> is an equal buffer.
\<close>

definition load_image :: "'i env \<Rightarrow> string \<Rightarrow> bool \<Rightarrow> bool \<Rightarrow> 'i session \<Rightarrow> ('i, bool) outcome" where
  "load_image e filename f_with_params f_process s =
     (case imread e filename of
        None \<Rightarrow> (s, Inl (Exception (''Image file not found '' @ filename)))
      | Some im \<Rightarrow>
          (let s1 = s\<lparr>gen_board := False, img_file := Some filename,
                      src_img_file := Some filename, img := Some im,
                      src_img := Some im, res := None\<rparr>;
               params_file = with_suffix e filename BOARD_PARAM_EXT;
               f_load = (f_with_params \<and> is_file e params_file);
               (s2, r2) = (if f_load then load_params e params_file s1 else (s1, Inr ()))
           in case r2 of
                Inl err \<Rightarrow> (s2, Inl err)
              | Inr _ \<Rightarrow>
                  (let (s3, r3) =
                         (case params s2 ''TRANSFORM'' of
                            None \<Rightarrow> (s2, Inr ())
                          | Some t \<Rightarrow> transform_image e t s2)
                   in case r3 of
                        Inl err \<Rightarrow> (s3, Inl err)
                      | Inr _ \<Rightarrow> ((if f_process then process e s3 else s3), Inr f_load))))"

subsection \<open>Resizing\<close>

text \<open>
  The body of the loop of the local function \<^verbatim>\<open>resize_stones\<close>, for one stone: the
  three assignments in their order. Each product is a float product of the entry and
  the scale, converted by \<^verbatim>\<open>int\<close>. The stone is a row of the stone array and is
  changed in place, so the result is the stone as far as it was assigned and the
  exception that stopped it, if any.
\<close>

definition resize_stone :: "stone \<Rightarrow> binary64 \<times> binary64 \<Rightarrow> stone \<times> error option" where
  "resize_stone st scale =
     (case int_of_float (fmul (float_of_int (GR_X st)) (fst scale)) of
        Inl err \<Rightarrow> (st, Some err)
      | Inr x \<Rightarrow>
          (let st1 = st\<lparr>GR_X := x\<rparr> in
           case int_of_float (fmul (float_of_int (GR_Y st1)) (snd scale)) of
             Inl err \<Rightarrow> (st1, Some err)
           | Inr y \<Rightarrow>
               (let st2 = st1\<lparr>GR_Y := y\<rparr> in
                case int_of_float
                       (fmul (float_of_int (GR_R st2)) (py_max (fst scale) (snd scale))) of
                  Inl err \<Rightarrow> (st2, Some err)
                | Inr r \<Rightarrow> (st2\<lparr>GR_R := r\<rparr>, None))))"

text \<open>
  The loop over the stones: the stones as they are after the loop and the exception
  that stopped it, if any. Without an exception the function returns a new array of the
  same stones.
\<close>

fun resize_stones :: "stone list \<Rightarrow> binary64 \<times> binary64 \<Rightarrow> stone list \<times> error option" where
  "resize_stones [] scale = ([], None)"
| "resize_stones (st # stones) scale =
     (case resize_stone st scale of
        (st', Some err) \<Rightarrow> (st' # stones, Some err)
      | (st', None) \<Rightarrow>
          (case resize_stones stones scale of (stones', r) \<Rightarrow> (st' # stones', r)))"

text \<open>
  \<^verbatim>\<open>resize_board\<close>. Its argument \<^verbatim>\<open>scale\<close> is overwritten by what \<^verbatim>\<open>resize2\<close>
  returns before it is read. The entries of the result are assigned one after the
  other, so an exception leaves the entries before it already rescaled.
\<close>

definition resize_board ::
  "'i env \<Rightarrow> int option \<Rightarrow> (binary64 \<times> binary64) option \<Rightarrow> 'i session \<Rightarrow>
   ('i, unit) outcome" where
  "resize_board e max_size scale_arg s =
     (case resize2 e (img s) max_size of
        Inl err \<Rightarrow> (s, Inl err)
      | Inr (im, scale) \<Rightarrow>
          (let s1 = s\<lparr>img := Some im\<rparr> in
           case res s1 of
             None \<Rightarrow> (s1, Inr ())
           | Some r \<Rightarrow>
               (case GR_STONES_B r of
                  None \<Rightarrow> (s1, Inl TypeError)
                | Some bs \<Rightarrow>
                    (case resize_stones bs scale of
                       (bs', Some err) \<Rightarrow>
                         (s1\<lparr>res := Some (r\<lparr>GR_STONES_B := Some bs'\<rparr>)\<rparr>, Inl err)
                     | (bs', None) \<Rightarrow>
                         (let r1 = r\<lparr>GR_STONES_B := Some bs'\<rparr> in
                          case GR_STONES_W r1 of
                            None \<Rightarrow> (s1\<lparr>res := Some r1\<rparr>, Inl TypeError)
                          | Some ws \<Rightarrow>
                              (case resize_stones ws scale of
                                 (ws', Some err) \<Rightarrow>
                                   (s1\<lparr>res := Some (r1\<lparr>GR_STONES_W := Some ws'\<rparr>)\<rparr>,
                                    Inl err)
                               | (ws', None) \<Rightarrow>
                                   (s1\<lparr>res := Some
                                         (r1\<lparr>GR_STONES_W := Some ws',
                                             GR_SPACING :=
                                               (fmul (fst (GR_SPACING r1)) (fst scale),
                                                fmul (snd (GR_SPACING r1)) (snd scale)),
                                             GR_EDGES :=
                                               ((fmul (fst (fst (GR_EDGES r1))) (fst scale),
                                                 fmul (snd (fst (GR_EDGES r1))) (snd scale)),
                                                (fmul (fst (snd (GR_EDGES r1))) (fst scale),
                                                 fmul (snd (snd (GR_EDGES r1))) (snd scale)))\<rparr>)\<rparr>,
                                    Inr ())))))))"

text \<open>
  A sequence of transform and resize calls, stopped by the first exception.
\<close>

datatype edit = Transform pval | Resize "int option" "(binary64 \<times> binary64) option"

definition apply_edit :: "'i env \<Rightarrow> edit \<Rightarrow> 'i session \<Rightarrow> ('i, unit) outcome" where
  "apply_edit e ed s =
     (case ed of
        Transform rect \<Rightarrow> transform_image e rect s
      | Resize max_size scale \<Rightarrow> resize_board e max_size scale s)"

fun apply_edits :: "'i env \<Rightarrow> edit list \<Rightarrow> 'i session \<Rightarrow> ('i, unit) outcome" where
  "apply_edits e [] s = (s, Inr ())"
| "apply_edits e (ed # eds) s =
     (case apply_edit e ed s of
        (s1, Inl err) \<Rightarrow> (s1, Inl err)
      | (s1, Inr _) \<Rightarrow> apply_edits e eds s1)"

subsection \<open>Stone accessors and lookup\<close>

definition black_stones :: "'i session \<Rightarrow> stone list option" where
  "black_stones s = (case res s of None \<Rightarrow> None | Some r \<Rightarrow> GR_STONES_B r)"

definition white_stones :: "'i session \<Rightarrow> stone list option" where
  "white_stones s = (case res s of None \<Rightarrow> None | Some r \<Rightarrow> GR_STONES_W r)"

text \<open>
  The property \<^verbatim>\<open>stones\<close> is a dictionary with the keys \<^verbatim>\<open>'W'\<close> and \<^verbatim>\<open>'B'\<close>;
  \<open>stones_item\<close> is the lookup \<^verbatim>\<open>self.stones[bw]\<close> in it, for a session with a result.
\<close>

definition stones_item :: "result \<Rightarrow> string \<Rightarrow> error + stone list option" where
  "stones_item r bw =
     (if bw = ''W'' then Inr (GR_STONES_W r)
      else if bw = ''B'' then Inr (GR_STONES_B r)
      else Inl KeyError)"

definition board_size :: "int \<Rightarrow> 'i session \<Rightarrow> pval" where
  "board_size DEF_BOARD_SIZE s =
     (case res s of
        None \<Rightarrow> (case params_get (params s) ''BOARD_SIZE'' of
                   PNone \<Rightarrow> PNum DEF_BOARD_SIZE
                 | p \<Rightarrow> p)
      | Some r \<Rightarrow> PNum (GR_BOARD_SIZE r))"

text \<open>
  An entry of \<^verbatim>\<open>all_stones\<close> is the list of the stone's five numbers followed by the
  colour tag. The variable of a list comprehension is local to it (Python 3), so the
  list \<^verbatim>\<open>r\<close> being extended is not rebound by the comprehension's \<^verbatim>\<open>r\<close>.
\<close>

datatype pyval = IntV int | StrV string

definition stone_list :: "stone \<Rightarrow> pyval list" where
  "stone_list st = [IntV (GR_X st), IntV (GR_Y st), IntV (GR_A st), IntV (GR_B st), IntV (GR_R st)]"

definition all_stones :: "'i session \<Rightarrow> pyval list list" where
  "all_stones s =
     (let r0 = [];
          r1 = (case black_stones s of
                  None \<Rightarrow> r0
                | Some bs \<Rightarrow> r0 @ map (\<lambda>r. stone_list r @ [StrV ''B'']) bs)
      in case white_stones s of
           None \<Rightarrow> r1
         | Some ws \<Rightarrow> r1 @ map (\<lambda>r. stone_list r @ [StrV ''W'']) ws)"

text \<open>
  The local function \<^verbatim>\<open>_find\<close> of \<^verbatim>\<open>find_stone\<close>: by screen coordinates, else by
  grid position, else by label. For a label the column is read first (an empty label
  raises \<^verbatim>\<open>IndexError\<close>), then the row (\<^verbatim>\<open>ValueError\<close> when it is no number).
\<close>

definition find_local ::
  "'i env \<Rightarrow> (int \<times> int) option \<Rightarrow> (int \<times> int) option \<Rightarrow> string option \<Rightarrow>
   stone list option \<Rightarrow> error + stone option" where
  "find_local e c p s stones =
     (case c of
        Some cc \<Rightarrow> Inr (find_coord e (fst cc) (snd cc) stones)
      | None \<Rightarrow>
          (case p of
             Some pp \<Rightarrow> Inr (find_position e (fst pp) (snd pp) stones)
           | None \<Rightarrow>
               (case s of
                  Some lbl \<Rightarrow>
                    (case map py_upper lbl of
                       [] \<Rightarrow> Inl IndexError
                     | ch # _ \<Rightarrow>
                         (case py_int (drop 1 lbl) of
                            Inl err \<Rightarrow> Inl err
                          | Inr n \<Rightarrow>
                              Inr (find_position e (py_ord ch - py_ord CHR ''A'' + 1) n stones)))
                | None \<Rightarrow> Inr None)))"

definition find_stone ::
  "'i env \<Rightarrow> (int \<times> int) option \<Rightarrow> (int \<times> int) option \<Rightarrow> string option \<Rightarrow>
   string option \<Rightarrow> 'i session \<Rightarrow> error + (stone option \<times> string option)" where
  "find_stone e c p s bw ses =
     (case res ses of
        None \<Rightarrow> Inr (None, None)
      | Some r \<Rightarrow>
          (case bw of
             Some col \<Rightarrow>
               (case stones_item r col of
                  Inl err \<Rightarrow> Inl err
                | Inr sts \<Rightarrow>
                    (case find_local e c p s sts of
                       Inl err \<Rightarrow> Inl err
                     | Inr stone \<Rightarrow> Inr (stone, Some col)))
           | None \<Rightarrow>
               (case find_local e c p s (black_stones ses) of
                  Inl err \<Rightarrow> Inl err
                | Inr (Some st) \<Rightarrow> Inr (Some st, Some ''B'')
                | Inr None \<Rightarrow>
                    (case find_local e c p s (white_stones ses) of
                       Inl err \<Rightarrow> Inl err
                     | Inr (Some st) \<Rightarrow> Inr (Some st, Some ''W'')
                     | Inr None \<Rightarrow> Inr (None, None)))))"

subsection \<open>Export of the result as a game record\<close>

text \<open>
  The game record of the SGF library: the board size of its header and the moves of its
  main sequence, each a colour (\<^verbatim>\<open>'b'\<close> or \<^verbatim>\<open>'w'\<close>) and a point (row, column).
  \<^verbatim>\<open>save_sgf\<close> writes the serialised record to the file it names; the model returns
  the file name and the record written.
\<close>

record sgf_game =
  game_size :: int
  main_sequence :: "(char \<times> int \<times> int) list"

text \<open>
  The library's two checks. \<^verbatim>\<open>Sgf_game(size)\<close> raises \<^verbatim>\<open>ValueError\<close> unless
  \<open>1 \<le> size \<le> 26\<close>; the comparison raises \<^verbatim>\<open>TypeError\<close> for a size that is no
  number (a truth value counts as 0 or 1). \<^verbatim>\<open>set_move\<close> raises \<^verbatim>\<open>ValueError\<close> for
  a point (row, column) that is not on the board.
\<close>

definition Sgf_game :: "pval \<Rightarrow> error + int" where
  "Sgf_game sz =
     (case sz of
        PNum n \<Rightarrow> if 1 \<le> n \<and> n \<le> 26 then Inr n else Inl ValueError
      | PBool b \<Rightarrow> if b then Inr 1 else Inl ValueError
      | _ \<Rightarrow> Inl TypeError)"

definition on_board :: "int \<Rightarrow> char \<times> int \<times> int \<Rightarrow> bool" where
  "on_board sz m \<longleftrightarrow>
     0 \<le> snd (snd m) \<and> snd (snd m) < sz \<and> 0 \<le> fst (snd m) \<and> fst (snd m) < sz"

text \<open>
  The moves set one after the other on a game of the given size: the main sequence
  when every point is on the board, \<^verbatim>\<open>ValueError\<close> at the first that is not.
\<close>

fun set_moves :: "int \<Rightarrow> (char \<times> int \<times> int) list \<Rightarrow> error + (char \<times> int \<times> int) list" where
  "set_moves sz [] = Inr []"
| "set_moves sz (m # ms) =
     (if on_board sz m
      then (case set_moves sz ms of Inl err \<Rightarrow> Inl err | Inr r \<Rightarrow> Inr (m # r))
      else Inl ValueError)"

text \<open>\<^verbatim>\<open>stone - 1\<close> on a row of the stone array subtracts one from every entry.\<close>

definition stone_minus1 :: "stone \<Rightarrow> stone" where
  "stone_minus1 st =
     \<lparr>GR_X = GR_X st - 1, GR_Y = GR_Y st - 1, GR_A = GR_A st - 1, GR_B = GR_B st - 1,
      GR_R = GR_R st - 1\<rparr>"

text \<open>
  The local function \<^verbatim>\<open>_add_stone\<close>: the move it asks the library to set on a new
  node of the main sequence. \<open>sgf_moves\<close> is the sequence of these requests that the
  loop of \<^verbatim>\<open>save_sgf\<close> makes, in its order.
\<close>

definition add_stone :: "char \<Rightarrow> stone \<Rightarrow> char \<times> int \<times> int" where
  "add_stone bw st = (bw, (GR_B st, GR_A st))"

definition sgf_moves :: "stone list \<Rightarrow> stone list \<Rightarrow> (char \<times> int \<times> int) list" where
  "sgf_moves bs ws =
     concat (map (\<lambda>n. (if n < length bs then [add_stone CHR ''b'' (stone_minus1 (bs ! n))] else []) @
                      (if n < length ws then [add_stone CHR ''w'' (stone_minus1 (ws ! n))] else []))
                 [0..<max (length ws) (length bs)])"

definition save_sgf ::
  "'i env \<Rightarrow> int \<Rightarrow> string option \<Rightarrow> 'i session \<Rightarrow> error + (string \<times> sgf_game)" where
  "save_sgf e DEF_BOARD_SIZE filename s =
     (case res s of
        None \<Rightarrow> Inl (Exception ''Recognition results are not available'')
      | Some r \<Rightarrow>
          (case (case filename of
                   Some f \<Rightarrow> Inr f
                 | None \<Rightarrow> (case img_file s of
                              None \<Rightarrow> Inl TypeError
                            | Some f \<Rightarrow> Inr (with_suffix e f ''.sgf'')))
           of
             Inl err \<Rightarrow> Inl err
           | Inr fname \<Rightarrow>
               (case Sgf_game (board_size DEF_BOARD_SIZE s) of
                  Inl err \<Rightarrow> Inl err
                | Inr sz \<Rightarrow>
                    (case GR_STONES_W r of
                       None \<Rightarrow> Inl TypeError
                     | Some ws \<Rightarrow>
                         (case GR_STONES_B r of
                            None \<Rightarrow> Inl TypeError
                          | Some bs \<Rightarrow>
                              (case set_moves sz (sgf_moves bs ws) of
                                 Inl err \<Rightarrow> Inl err
                               | Inr ms \<Rightarrow>
                                   (case open_wb e fname of
                                      Some err \<Rightarrow> Inl err
                                    | None \<Rightarrow>
                                        Inr (fname,
                                             \<lparr>game_size = sz, main_sequence = ms\<rparr>))))))))"

text \<open>
  Alternation as the spec words it, for comparison with the loop of \<^verbatim>\<open>save_sgf\<close>:
  the two sequences are taken in turn, black first, and the longer one continues alone.
\<close>

fun alternate :: "'a list \<Rightarrow> 'a list \<Rightarrow> 'a list" where
  "alternate [] ys = ys"
| "alternate xs [] = xs"
| "alternate (x # xs) (y # ys) = x # y # alternate xs ys"

section \<open>Concrete sessions, masks and collaborators for evaluation\<close>

text \<open>
  A canvas without scrolling, a mask on a 100 by 100 image in the middle of a drag of
  its left edge, and collaborators that decode one file, find no parameters file, detect
  nothing, halve images, open every file, and look stones up by equality of the
  coordinates; a session with three stones on a board of size 9, and one with a stone
  in column 10 of such a board.
\<close>

definition plain_canvas :: tkcanvas where
  "plain_canvas = \<lparr>canvasx = (\<lambda>x. x), canvasy = (\<lambda>y. y)\<rparr>"

definition mask_100 :: ImageMask where
  "mask_100 =
     \<lparr>image_shape = (100, 100), min_dist = 5, allow_change = True,
      mask_list = [5, 5, 95, 95], mask_area = None, mask_rect = Some (5, 5, 95, 95),
      drag_side = Some 0\<rparr>"

definition stone_at :: "int \<Rightarrow> int \<Rightarrow> stone list option \<Rightarrow> stone option" where
  "stone_at a b stones =
     (case stones of
        None \<Rightarrow> None
      | Some sts \<Rightarrow> List.find (\<lambda>st. GR_A st = a \<and> GR_B st = b) sts)"

definition pixel_at :: "int \<Rightarrow> int \<Rightarrow> stone list option \<Rightarrow> stone option" where
  "pixel_at x y stones =
     (case stones of
        None \<Rightarrow> None
      | Some sts \<Rightarrow> List.find (\<lambda>st. GR_X st = x \<and> GR_Y st = y) sts)"

definition empty_result :: result where
  "empty_result =
     \<lparr>GR_STONES_B = None, GR_STONES_W = None, GR_SPACING = (Finite 10, Finite 10),
      GR_EDGES = ((Finite 5, Finite 5), (Finite 95, Finite 95)), GR_BOARD_SIZE = 9\<rparr>"

definition stub_env :: "nat env" where
  "stub_env =
     \<lparr>imread = (\<lambda>f. if f = ''board.png'' then Some 1 else None),
      is_file = (\<lambda>f. False),
      with_suffix = (\<lambda>f ext. takeWhile (\<lambda>ch. ch \<noteq> CHR ''.'') f @ ext),
      json_load = (\<lambda>f. Inl ExternalError),
      assign = (\<lambda>ps p copy_all. ps ++ p),
      four_point_transform = (\<lambda>im pts. case im of None \<Rightarrow> Inl ExternalError | Some n \<Rightarrow> Inr (n + 10)),
      process_img = (\<lambda>im ps. Some empty_result),
      generate_board = (\<lambda>shape r. 0),
      open_wb = (\<lambda>f. None),
      resize2 = (\<lambda>im max_size. case im of
                   None \<Rightarrow> Inl ExternalError
                 | Some n \<Rightarrow> Inr (n + 100, (Finite (1 / 2), Finite (1 / 2)))),
      find_coord = pixel_at,
      find_position = stone_at\<rparr>"

definition stone_a1 :: stone where
  "stone_a1 = \<lparr>GR_X = 13, GR_Y = 17, GR_A = 1, GR_B = 1, GR_R = 5\<rparr>"

definition stone_c2 :: stone where
  "stone_c2 = \<lparr>GR_X = 33, GR_Y = 27, GR_A = 3, GR_B = 2, GR_R = 5\<rparr>"

definition stone_b3 :: stone where
  "stone_b3 = \<lparr>GR_X = 23, GR_Y = 37, GR_A = 2, GR_B = 3, GR_R = 5\<rparr>"

definition two_one_result :: result where
  "two_one_result =
     \<lparr>GR_STONES_B = Some [stone_a1, stone_c2], GR_STONES_W = Some [stone_b3],
      GR_SPACING = (Finite 10, Finite 10),
      GR_EDGES = ((Finite 5, Finite 5), (Finite 95, Finite 95)), GR_BOARD_SIZE = 9\<rparr>"

definition stone_k1 :: stone where
  "stone_k1 = \<lparr>GR_X = 93, GR_Y = 7, GR_A = 10, GR_B = 1, GR_R = 5\<rparr>"

definition off_board_result :: result where
  "off_board_result =
     \<lparr>GR_STONES_B = Some [stone_a1, stone_k1], GR_STONES_W = Some [stone_b3],
      GR_SPACING = (Finite 10, Finite 10),
      GR_EDGES = ((Finite 5, Finite 5), (Finite 95, Finite 95)), GR_BOARD_SIZE = 9\<rparr>"

definition off_board_session :: "nat session" where
  "off_board_session =
     \<lparr>params = Map.empty, res = Some off_board_result, img = Some 1,
      img_file = Some ''board.png'', src_img = Some 1, src_img_file = Some ''board.png'',
      gen_board = False\<rparr>"

definition empty_session :: "nat session" where
  "empty_session =
     \<lparr>params = Map.empty, res = None, img = None, img_file = None, src_img = None,
      src_img_file = None, gen_board = False\<rparr>"

definition loaded_session :: "nat session" where
  "loaded_session =
     \<lparr>params = [''BOARD_SIZE'' \<mapsto> PNum 9, ''AREA_MASK'' \<mapsto> PBool True],
      res = Some two_one_result, img = Some 1, img_file = Some ''board.png'',
      src_img = Some 1, src_img_file = Some ''board.png'', gen_board = False\<rparr>"

section \<open>Verified properties\<close>

subsection \<open>Hit testing\<close>

lemma py_range_set: "set (py_range n) = {0..<n}"
proof -
  have "x \<in> int ` {0..<nat n}" if "0 \<le> x" "x < n" for x
    using that by (intro image_eqI[of _ _ "nat x"]) auto
  then show ?thesis by (auto simp: py_range_def)
qed

lemma is_on_w_iff:
  "is_on_w a b c delta \<longleftrightarrow>
     (\<exists>i j. 0 \<le> i \<and> i < delta * 3 \<and> 0 \<le> j \<and> j < delta * 3 \<and>
            is_on a b (fst c + i - 1, snd c + j - 1))"
  unfolding is_on_w_def list_ex_iff py_range_set by (simp add: Bex_def)

text \<open>
  Claim C8. The exact hit test accepts a point \<open>c\<close> exactly when \<open>c\<close> is collinear with
  the endpoints \<open>a\<close> and \<open>b\<close> and its deciding coordinate (x, or y when the endpoints
  share their x) lies between the endpoints' coordinates, inclusive. The windowed test
  accepts \<open>c\<close> exactly when some candidate \<open>(c\<^sub>x + dx, c\<^sub>y + dy)\<close> with offsets from
  \<open>-1\<close> to \<open>3 * delta - 2\<close> passes the exact test. For \<open>delta \<ge> 1\<close> the offset 0 is in
  the window, so every point the exact test accepts is accepted by the windowed one.
\<close>

theorem hit_test_window:
  "(is_on a b c \<longleftrightarrow>
      (fst b - fst a) * (snd c - snd a) = (fst c - fst a) * (snd b - snd a) \<and>
      (if fst a \<noteq> fst b
       then min (fst a) (fst b) \<le> fst c \<and> fst c \<le> max (fst a) (fst b)
       else min (snd a) (snd b) \<le> snd c \<and> snd c \<le> max (snd a) (snd b))) \<and>
   (is_on_w a b c delta \<longleftrightarrow>
      (\<exists>dx dy. - 1 \<le> dx \<and> dx \<le> 3 * delta - 2 \<and> - 1 \<le> dy \<and> dy \<le> 3 * delta - 2 \<and>
               is_on a b (fst c + dx, snd c + dy))) \<and>
   (1 \<le> delta \<and> is_on a b c \<longrightarrow> is_on_w a b c delta)"
proof (intro conjI)
  show "is_on a b c \<longleftrightarrow>
      (fst b - fst a) * (snd c - snd a) = (fst c - fst a) * (snd b - snd a) \<and>
      (if fst a \<noteq> fst b
       then min (fst a) (fst b) \<le> fst c \<and> fst c \<le> max (fst a) (fst b)
       else min (snd a) (snd b) \<le> snd c \<and> snd c \<le> max (snd a) (snd b))"
    unfolding is_on_def collinear3_def within_incl_def by (auto simp: min_def max_def)
next
  show win: "is_on_w a b c delta \<longleftrightarrow>
      (\<exists>dx dy. - 1 \<le> dx \<and> dx \<le> 3 * delta - 2 \<and> - 1 \<le> dy \<and> dy \<le> 3 * delta - 2 \<and>
               is_on a b (fst c + dx, snd c + dy))"
  proof
    assume "is_on_w a b c delta"
    then obtain i j where ij: "0 \<le> i" "i < delta * 3" "0 \<le> j" "j < delta * 3"
      and on: "is_on a b (fst c + i - 1, snd c + j - 1)"
      unfolding is_on_w_iff by blast
    have "is_on a b (fst c + (i - 1), snd c + (j - 1))"
      using on by (simp add: algebra_simps)
    with ij show "\<exists>dx dy. - 1 \<le> dx \<and> dx \<le> 3 * delta - 2 \<and> - 1 \<le> dy \<and> dy \<le> 3 * delta - 2 \<and>
               is_on a b (fst c + dx, snd c + dy)"
      by (intro exI[of _ "i - 1"] exI[of _ "j - 1"]) simp
  next
    assume "\<exists>dx dy. - 1 \<le> dx \<and> dx \<le> 3 * delta - 2 \<and> - 1 \<le> dy \<and> dy \<le> 3 * delta - 2 \<and>
               is_on a b (fst c + dx, snd c + dy)"
    then obtain dx dy where d: "- 1 \<le> dx" "dx \<le> 3 * delta - 2" "- 1 \<le> dy" "dy \<le> 3 * delta - 2"
      and on: "is_on a b (fst c + dx, snd c + dy)" by blast
    have "is_on a b (fst c + (dx + 1) - 1, snd c + (dy + 1) - 1)"
      using on by simp
    with d show "is_on_w a b c delta"
      unfolding is_on_w_iff by (intro exI[of _ "dx + 1"] exI[of _ "dy + 1"]) simp
  qed
next
  show "1 \<le> delta \<and> is_on a b c \<longrightarrow> is_on_w a b c delta"
  proof
    assume h: "1 \<le> delta \<and> is_on a b c"
    then have "is_on a b (fst c + 1 - 1, snd c + 1 - 1)" by simp
    with h show "is_on_w a b c delta"
      unfolding is_on_w_iff by (intro exI[of _ 1]) simp
  qed
qed

theorem hit_test_window_witness:
  "is_on (0, 0) (10, 0) (5, 0) \<and> is_on_w (0, 0) (10, 0) (5, 0) 1 \<and>
   \<not> is_on (0, 0) (10, 0) (5, 3) \<and> \<not> is_on_w (0, 0) (10, 0) (5, 3) 1 \<and>
   \<not> is_on (0, 0) (10, 0) (5, 1) \<and> is_on_w (0, 0) (10, 0) (5, 1) 1"
proof -
  have on: "is_on (0, 0) (10, 0) (5, 0)"
    by (simp add: is_on_def collinear3_def within_incl_def)
  have "1 \<le> (1::int) \<and> is_on (0, 0) (10, 0) (5, 0) \<longrightarrow> is_on_w (0, 0) (10, 0) (5, 0) 1"
    using hit_test_window [of "(0, 0)" "(10, 0)" "(5, 0)" 1] by blast
  then have w: "is_on_w (0, 0) (10, 0) (5, 0) 1"
    using on by simp
  have "\<not> is_on_w (0, 0) (10, 0) (5, 3) 1" "is_on_w (0, 0) (10, 0) (5, 1) 1"
    by (simp_all add: is_on_w_def py_range_def is_on_def collinear3_def within_incl_def upt_rec)
  moreover have "\<not> is_on (0, 0) (10, 0) (5, 3)" "\<not> is_on (0, 0) (10, 0) (5, 1)"
    by (simp_all add: is_on_def collinear3_def within_incl_def)
  ultimately show ?thesis using on w by simp
qed

subsection \<open>Dragging an edge of the mask\<close>

lemma drag_callback_latched_eq:
  assumes "drag_side m = Some k" and "length (mask_list m) = 4"
  shows "drag_callback cv m ev =
     (let ml = (if k = 0 then (mask_list m)[0 := max (canvasx cv (fst ev)) (min_dist m)]
                else if k = 1 then (mask_list m)[1 := max (canvasy cv (snd ev)) (min_dist m)]
                else if k = 2 then
                  (mask_list m)[2 := min (canvasx cv (fst ev)) (snd (image_shape m) - min_dist m)]
                else if k = 3 then
                  (mask_list m)[3 := min (canvasy cv (snd ev)) (fst (image_shape m) - min_dist m)]
                else mask_list m);
          m1 = m\<lparr>mask_list := ml\<rparr>
      in (draw_mask_shading
            (case mask_rect m of
               None \<Rightarrow> m1
             | Some r \<Rightarrow> m1\<lparr>mask_rect := Some (ml ! 0, ml ! 1, ml ! 2, ml ! 3)\<rparr>),
          None))"
  using assms unfolding drag_callback_def list_set_def Let_def
  by (simp split: option.splits)

lemma drag_callback_latches:
  "drag_side m = None \<Longrightarrow>
   drag_callback cv m (x, y) =
     (case get_mask_rect_side cv m x y of
        None \<Rightarrow> (m, None)
      | Some k \<Rightarrow> drag_callback cv (m\<lparr>drag_side := Some k\<rparr>) (x, y))"
  by (simp add: drag_callback_def split: option.splits)

lemma mask_list_draw_mask_shading [simp]:
  "mask_list (draw_mask_shading m) = mask_list m" "drag_side (draw_mask_shading m) = drag_side m"
  by (simp_all add: draw_mask_shading_def Let_def)

text \<open>
  Claim C1, as the code has it. A drag movement on a latched edge of a four-entry mask
  raises nothing, keeps the latch and changes only the latched entry: the left and top
  edges become the pointer's coordinate, but at least \<open>min_dist\<close>; the right and bottom
  edges become the pointer's coordinate, but at most the image's width or height minus
  \<open>min_dist\<close>. The moved edge is clamped against the image border only.
\<close>

theorem drag_callback_clamps_to_border:
  "drag_side m = Some k \<Longrightarrow> length (mask_list m) = 4 \<Longrightarrow>
   snd (drag_callback cv m (x, y)) = None \<and>
   drag_side (fst (drag_callback cv m (x, y))) = Some k \<and>
   (k = 0 \<longrightarrow>
      mask_list (fst (drag_callback cv m (x, y))) =
        (mask_list m)[0 := max (canvasx cv x) (min_dist m)] \<and>
      min_dist m \<le> mask_list (fst (drag_callback cv m (x, y))) ! 0) \<and>
   (k = 1 \<longrightarrow>
      mask_list (fst (drag_callback cv m (x, y))) =
        (mask_list m)[1 := max (canvasy cv y) (min_dist m)] \<and>
      min_dist m \<le> mask_list (fst (drag_callback cv m (x, y))) ! 1) \<and>
   (k = 2 \<longrightarrow>
      mask_list (fst (drag_callback cv m (x, y))) =
        (mask_list m)[2 := min (canvasx cv x) (snd (image_shape m) - min_dist m)] \<and>
      mask_list (fst (drag_callback cv m (x, y))) ! 2 \<le> snd (image_shape m) - min_dist m) \<and>
   (k = 3 \<longrightarrow>
      mask_list (fst (drag_callback cv m (x, y))) =
        (mask_list m)[3 := min (canvasy cv y) (fst (image_shape m) - min_dist m)] \<and>
      mask_list (fst (drag_callback cv m (x, y))) ! 3 \<le> fst (image_shape m) - min_dist m)"
proof -
  assume k: "drag_side m = Some k" and len: "length (mask_list m) = 4"
  note eq = drag_callback_latched_eq [OF k len, of cv "(x, y)"]
  have e: "snd (drag_callback cv m (x, y)) = None"
    by (simp add: eq Let_def)
  have d: "drag_side (fst (drag_callback cv m (x, y))) = Some k"
    using k by (simp add: eq Let_def split: option.splits)
  have l: "mask_list (fst (drag_callback cv m (x, y))) =
     (if k = 0 then (mask_list m)[0 := max (canvasx cv x) (min_dist m)]
      else if k = 1 then (mask_list m)[1 := max (canvasy cv y) (min_dist m)]
      else if k = 2 then (mask_list m)[2 := min (canvasx cv x) (snd (image_shape m) - min_dist m)]
      else if k = 3 then (mask_list m)[3 := min (canvasy cv y) (fst (image_shape m) - min_dist m)]
      else mask_list m)"
    by (simp add: eq Let_def split: option.splits)
  show ?thesis
    using e d len by (simp add: l)
qed

text \<open>
  The left edge of the 100 by 100 mask, dragged to x = 2, stops at \<open>min_dist = 5\<close>.
\<close>

theorem drag_callback_clamps_to_border_witness:
  "drag_side mask_100 = Some 0 \<and> length (mask_list mask_100) = 4 \<and>
   mask_list (fst (drag_callback plain_canvas mask_100 (2, 50))) = [5, 5, 95, 95] \<and>
   min_dist mask_100 \<le> mask_list (fst (drag_callback plain_canvas mask_100 (2, 50))) ! 0"
proof -
  have k: "drag_side mask_100 = Some 0" and len: "length (mask_list mask_100) = 4"
    by (simp_all add: mask_100_def)
  from drag_callback_clamps_to_border [OF k len, of plain_canvas 2 50]
  have "mask_list (fst (drag_callback plain_canvas mask_100 (2, 50))) =
          (mask_list mask_100)[0 := max (canvasx plain_canvas 2) (min_dist mask_100)]"
    and "min_dist mask_100 \<le> mask_list (fst (drag_callback plain_canvas mask_100 (2, 50))) ! 0"
    by blast+
  then show ?thesis
    using k len by (simp add: mask_100_def plain_canvas_def)
qed

text \<open>
  Claim C1 as stated fails: there is no clamp against the opposite edge. On the mask
  [5, 5, 95, 95] with the left edge latched, a drag to x = 200 puts the left edge at
  200, beyond the right edge at 95, and not at \<open>right - min_dist = 90\<close>.
\<close>

theorem drag_left_crosses_right:
  "mask_list mask_100 = [5, 5, 95, 95] \<and> min_dist mask_100 = 5 \<and>
   drag_side mask_100 = Some 0 \<and>
   drag_callback plain_canvas mask_100 (200, 50) =
     (mask_100\<lparr>mask_list := [200, 5, 95, 95],
               mask_area := Some [[0, 0, 100, 0, 100, 5, 0, 5, 0, 0],
                                  [0, 5, 200, 5, 200, 100, 0, 100, 0, 5],
                                  [200, 95, 100, 95, 100, 100, 200, 100, 200, 95],
                                  [95, 5, 100, 5, 100, 95, 95, 95, 95, 5]],
               mask_rect := Some (200, 5, 95, 95)\<rparr>, None) \<and>
   \<not> (mask_list (fst (drag_callback plain_canvas mask_100 (200, 50))) ! 0
        < mask_list (fst (drag_callback plain_canvas mask_100 (200, 50))) ! 2) \<and>
   mask_list (fst (drag_callback plain_canvas mask_100 (200, 50))) ! 0 \<noteq> 95 - 5"
  by (simp add: drag_callback_def mask_100_def plain_canvas_def list_set_def Let_def
      draw_mask_shading_def)

subsection \<open>Processing, the parameter setter, stone lists and failed loads\<close>

lemma normalize_stones_fields:
  "GR_STONES_B (normalize_stones r) = Some (case GR_STONES_B r of None \<Rightarrow> [] | Some bs \<Rightarrow> bs)"
  "GR_STONES_W (normalize_stones r) = Some (case GR_STONES_W r of None \<Rightarrow> [] | Some ws \<Rightarrow> ws)"
  "GR_SPACING (normalize_stones r) = GR_SPACING r"
  "GR_EDGES (normalize_stones r) = GR_EDGES r"
  "GR_BOARD_SIZE (normalize_stones r) = GR_BOARD_SIZE r"
  by (simp_all add: normalize_stones_def Let_def split: option.splits)

lemma process_res:
  "res (process e s) =
     (case img s of
        None \<Rightarrow> None
      | Some im \<Rightarrow> if gen_board s then None
                   else map_option normalize_stones (process_img e im (params s)))"
  by (simp add: process_def split: option.splits)

lemma process_frame: "process e s = s\<lparr>res := res (process e s)\<rparr>"
  by (simp add: process_def split: option.splits)

text \<open>
  Claim C2. \<open>process\<close> sets the result to absent when there is no image or the board
  was generated; otherwise it stores what the detector returns for the image and the
  parameters, with an absent black or white stone list replaced by the empty list and
  nothing else of the result changed. So a result left by \<open>process\<close> has both stone
  lists present. No other attribute of the session changes.
\<close>

theorem process_result:
  "((img s = None \<or> gen_board s) \<longrightarrow> res (process e s) = None) \<and>
   (img s = Some im \<and> \<not> gen_board s \<longrightarrow>
      res (process e s) = map_option normalize_stones (process_img e im (params s))) \<and>
   GR_STONES_B (normalize_stones r0) =
      Some (case GR_STONES_B r0 of None \<Rightarrow> [] | Some bs \<Rightarrow> bs) \<and>
   GR_STONES_W (normalize_stones r0) =
      Some (case GR_STONES_W r0 of None \<Rightarrow> [] | Some ws \<Rightarrow> ws) \<and>
   GR_SPACING (normalize_stones r0) = GR_SPACING r0 \<and>
   GR_EDGES (normalize_stones r0) = GR_EDGES r0 \<and>
   GR_BOARD_SIZE (normalize_stones r0) = GR_BOARD_SIZE r0 \<and>
   (res (process e s) = Some r \<longrightarrow> GR_STONES_B r \<noteq> None \<and> GR_STONES_W r \<noteq> None) \<and>
   process e s = s\<lparr>res := res (process e s)\<rparr>"
proof -
  have a: "(img s = None \<or> gen_board s) \<longrightarrow> res (process e s) = None"
    by (auto simp: process_res split: option.splits)
  have b: "img s = Some im \<and> \<not> gen_board s \<longrightarrow>
      res (process e s) = map_option normalize_stones (process_img e im (params s))"
    by (simp add: process_res)
  have c: "res (process e s) = Some r \<longrightarrow> GR_STONES_B r \<noteq> None \<and> GR_STONES_W r \<noteq> None"
    by (auto simp: process_res normalize_stones_fields split: option.splits if_splits)
  show ?thesis
    using a b c process_frame [of e s] by (simp add: normalize_stones_fields)
qed

text \<open>
  A loaded board whose detector reports no stone lists gets empty lists; a generated
  board and an empty session get no result.
\<close>

theorem process_result_witness:
  "img loaded_session = Some 1 \<and> \<not> gen_board loaded_session \<and>
   process_img stub_env 1 (params loaded_session) = Some empty_result \<and>
   GR_STONES_B empty_result = None \<and> GR_STONES_W empty_result = None \<and>
   res (process stub_env loaded_session) =
     Some (empty_result\<lparr>GR_STONES_B := Some [], GR_STONES_W := Some []\<rparr>) \<and>
   gen_board (generate stub_env (100, 100) loaded_session) \<and>
   res (process stub_env (generate stub_env (100, 100) loaded_session)) = None \<and>
   img empty_session = None \<and> res (process stub_env empty_session) = None"
proof -
  have i: "img loaded_session = Some 1 \<and> \<not> gen_board loaded_session"
    by (simp add: loaded_session_def)
  have d: "process_img stub_env 1 (params loaded_session) = Some empty_result"
    by (simp add: stub_env_def)
  have n: "normalize_stones empty_result =
      empty_result\<lparr>GR_STONES_B := Some [], GR_STONES_W := Some []\<rparr>"
    by (simp add: normalize_stones_def empty_result_def)
  have g: "gen_board (generate stub_env (100, 100) loaded_session)"
    by (simp add: generate_def)
  have em: "img empty_session = None"
    by (simp add: empty_session_def)
  have 1: "res (process stub_env loaded_session) =
      Some (empty_result\<lparr>GR_STONES_B := Some [], GR_STONES_W := Some []\<rparr>)"
    using process_result [of loaded_session stub_env 1] i d n by simp
  have 2: "res (process stub_env (generate stub_env (100, 100) loaded_session)) = None"
    using process_result [of "generate stub_env (100, 100) loaded_session" stub_env] g by blast
  have 3: "res (process stub_env empty_session) = None"
    using process_result [of empty_session stub_env] em by blast
  show ?thesis
    using i d g em 1 2 3 by (simp add: empty_result_def)
qed

text \<open>
  Claim C9. The setter of \<open>params\<close> assigns the parameters and also sets the
  generated flag to false, changing nothing else; a following \<open>process\<close> on a session
  with an image therefore runs the detector, also when the image had been generated.
\<close>

theorem set_params_clears_generated:
  "gen_board (set_params e p s) = False \<and>
   params (set_params e p s) = assign e (params s) p None \<and>
   set_params e p s = s\<lparr>params := assign e (params s) p None, gen_board := False\<rparr> \<and>
   (img s = Some im \<longrightarrow>
      res (process e (set_params e p s)) =
        map_option normalize_stones (process_img e im (assign e (params s) p None)))"
  by (simp add: set_params_def process_res)

text \<open>
  On a generated board \<open>process\<close> bypasses detection; after the setter it detects.
\<close>

theorem set_params_clears_generated_witness:
  "gen_board (generate stub_env (100, 100) empty_session) \<and>
   img (generate stub_env (100, 100) empty_session) = Some 0 \<and>
   res (process stub_env (generate stub_env (100, 100) empty_session)) = None \<and>
   res (process stub_env
          (set_params stub_env [''BOARD_SIZE'' \<mapsto> PNum 13]
             (generate stub_env (100, 100) empty_session))) =
     Some (empty_result\<lparr>GR_STONES_B := Some [], GR_STONES_W := Some []\<rparr>)"
proof -
  have g: "gen_board (generate stub_env (100, 100) empty_session)"
    and i: "img (generate stub_env (100, 100) empty_session) = Some 0"
    by (simp_all add: generate_def stub_env_def)
  have b: "res (process stub_env (generate stub_env (100, 100) empty_session)) = None"
    using g by (simp add: process_res split: option.splits)
  have n: "normalize_stones empty_result =
      empty_result\<lparr>GR_STONES_B := Some [], GR_STONES_W := Some []\<rparr>"
    by (simp add: normalize_stones_def empty_result_def)
  have d: "process_img stub_env 0 ps = Some empty_result" for ps
    by (simp add: stub_env_def)
  have "res (process stub_env
          (set_params stub_env [''BOARD_SIZE'' \<mapsto> PNum 13]
             (generate stub_env (100, 100) empty_session))) =
     map_option normalize_stones (process_img stub_env 0
        (assign stub_env (params (generate stub_env (100, 100) empty_session))
           [''BOARD_SIZE'' \<mapsto> PNum 13] None))"
    using set_params_clears_generated
      [of stub_env "[''BOARD_SIZE'' \<mapsto> PNum 13]" "generate stub_env (100, 100) empty_session" 0] i
    by blast
  then show ?thesis
    using g i b by (simp add: d n)
qed

text \<open>
  Claim C10. Without a result \<open>all_stones\<close> is the empty list, while \<open>black_stones\<close>
  and \<open>white_stones\<close> are absent. With a result it lists all black stones, then all
  white stones, each as its five numbers followed by the colour tag as last element.
\<close>

theorem all_stones_combined:
  "(res s = None \<longrightarrow>
      all_stones s = [] \<and> black_stones s = None \<and> white_stones s = None) \<and>
   (res s = Some r \<and> GR_STONES_B r = Some bs \<and> GR_STONES_W r = Some ws \<longrightarrow>
      all_stones s =
        map (\<lambda>st. [IntV (GR_X st), IntV (GR_Y st), IntV (GR_A st), IntV (GR_B st),
                   IntV (GR_R st), StrV ''B'']) bs @
        map (\<lambda>st. [IntV (GR_X st), IntV (GR_Y st), IntV (GR_A st), IntV (GR_B st),
                   IntV (GR_R st), StrV ''W'']) ws \<and>
      (\<forall>n < length bs. last (all_stones s ! n) = StrV ''B'') \<and>
      (\<forall>n < length ws. last (all_stones s ! (length bs + n)) = StrV ''W''))"
  by (simp add: all_stones_def black_stones_def white_stones_def stone_list_def nth_append)

text \<open>
  The empty session, and the session with two black stones and one white stone.
\<close>

theorem all_stones_combined_witness:
  "res empty_session = None \<and> all_stones empty_session = [] \<and>
   black_stones empty_session = None \<and> white_stones empty_session = None \<and>
   all_stones loaded_session =
     [[IntV 13, IntV 17, IntV 1, IntV 1, IntV 5, StrV ''B''],
      [IntV 33, IntV 27, IntV 3, IntV 2, IntV 5, StrV ''B''],
      [IntV 23, IntV 37, IntV 2, IntV 3, IntV 5, StrV ''W'']]"
proof -
  have e: "res empty_session = None"
    by (simp add: empty_session_def)
  have l: "res loaded_session = Some two_one_result \<and>
      GR_STONES_B two_one_result = Some [stone_a1, stone_c2] \<and>
      GR_STONES_W two_one_result = Some [stone_b3]"
    by (simp add: loaded_session_def two_one_result_def)
  have 1: "all_stones empty_session = [] \<and> black_stones empty_session = None \<and>
      white_stones empty_session = None"
    using all_stones_combined [of empty_session] e by blast
  have 2: "all_stones loaded_session =
        map (\<lambda>st. [IntV (GR_X st), IntV (GR_Y st), IntV (GR_A st), IntV (GR_B st),
                   IntV (GR_R st), StrV ''B'']) [stone_a1, stone_c2] @
        map (\<lambda>st. [IntV (GR_X st), IntV (GR_Y st), IntV (GR_A st), IntV (GR_B st),
                   IntV (GR_R st), StrV ''W'']) [stone_b3]"
    using all_stones_combined [of loaded_session two_one_result "[stone_a1, stone_c2]" "[stone_b3]"] l
    by blast
  show ?thesis
    using e 1 by (simp add: 2 stone_a1_def stone_c2_def stone_b3_def)
qed

text \<open>
  Claim C5. When the image cannot be decoded, \<open>load_image\<close> raises the exception
  ``Image file not found'' with the file name, and the session after the call is the
  session before it: no attribute has been assigned.
\<close>

theorem load_image_undecodable:
  "imread e filename = None \<Longrightarrow>
   load_image e filename f_with_params f_process s =
     (s, Inl (Exception (''Image file not found '' @ filename)))"
  by (simp add: load_image_def)

text \<open>
  Loading a file the codec cannot read into a loaded session leaves it as it was.
\<close>

theorem load_image_undecodable_witness:
  "imread stub_env ''missing.png'' = None \<and>
   load_image stub_env ''missing.png'' True True loaded_session =
     (loaded_session, Inl (Exception ''Image file not found missing.png''))"
proof -
  have h: "imread stub_env ''missing.png'' = None"
    by (simp add: stub_env_def)
  show ?thesis
    using h load_image_undecodable [OF h, of True True loaded_session] by simp
qed

subsection \<open>Resetting the image\<close>

lemma transform_image_src_img: "src_img (fst (transform_image e rect s)) = src_img s"
  by (simp add: transform_image_def split: pval.splits sum.splits)

lemma resize_board_src_img: "src_img (fst (resize_board e max_size scale s)) = src_img s"
  by (simp add: resize_board_def Let_def split: sum.splits option.splits prod.splits)

lemma resize_board_img:
  "img (fst (resize_board e max_size scale s)) =
     (case resize2 e (img s) max_size of Inl err \<Rightarrow> img s | Inr (im, sc) \<Rightarrow> Some im)"
  by (simp add: resize_board_def Let_def split: sum.splits option.splits prod.splits)

lemma apply_edits_single: "fst (apply_edits e [ed] s) = fst (apply_edit e ed s)"
  by (simp split: prod.splits sum.splits)

lemma apply_edits_step:
  "apply_edit e ed s = (s1, Inr ()) \<Longrightarrow> apply_edits e (ed # eds) s = apply_edits e eds s1"
  by simp

lemma apply_edit_src_img: "src_img (fst (apply_edit e ed s)) = src_img s"
  by (simp add: apply_edit_def transform_image_src_img resize_board_src_img split: edit.splits)

lemma apply_edits_src_img: "src_img (fst (apply_edits e eds s)) = src_img s"
proof (induction eds arbitrary: s)
  case Nil
  show ?case by simp
next
  case (Cons ed eds)
  obtain s1 r1 where a: "apply_edit e ed s = (s1, r1)"
    by (cases "apply_edit e ed s")
  have s1: "src_img s1 = src_img s"
    using apply_edit_src_img [of e ed s] a by simp
  show ?case
  proof (cases r1)
    case (Inl err)
    with a s1 show ?thesis by simp
  next
    case (Inr u)
    with a s1 Cons.IH [of s1] show ?thesis by simp
  qed
qed

text \<open>
  Claim C3. After any sequence of transform and resize calls on a session \<open>s\<close>
  (run until the first exception, if any), \<open>reset_image\<close> makes the current image the
  stored source image, which is still the one \<open>s\<close> held: no edit assigns it. On any
  session \<open>s'\<close>, \<open>reset_image\<close> stores the absent value under \<open>TRANSFORM\<close>,
  \<open>BOARD_EDGES\<close> and \<open>BOARD_SIZE\<close> and leaves every other parameter, the result, the
  file names and the generated flag as they were.
\<close>

theorem reset_image_restores_source:
  "img (reset_image (fst (apply_edits e eds s))) = src_img s \<and>
   src_img (reset_image (fst (apply_edits e eds s))) = src_img s \<and>
   params (reset_image s') ''TRANSFORM'' = Some PNone \<and>
   params (reset_image s') ''BOARD_EDGES'' = Some PNone \<and>
   params (reset_image s') ''BOARD_SIZE'' = Some PNone \<and>
   params_get (params (reset_image s')) ''TRANSFORM'' = PNone \<and>
   params_get (params (reset_image s')) ''BOARD_EDGES'' = PNone \<and>
   params_get (params (reset_image s')) ''BOARD_SIZE'' = PNone \<and>
   (k \<noteq> ''TRANSFORM'' \<and> k \<noteq> ''BOARD_EDGES'' \<and> k \<noteq> ''BOARD_SIZE'' \<longrightarrow>
      params (reset_image s') k = params s' k) \<and>
   res (reset_image s') = res s' \<and> img_file (reset_image s') = img_file s' \<and>
   src_img_file (reset_image s') = src_img_file s' \<and>
   gen_board (reset_image s') = gen_board s'"
proof -
  have a: "img (reset_image (fst (apply_edits e eds s))) = src_img s"
    "src_img (reset_image (fst (apply_edits e eds s))) = src_img s"
    by (simp_all add: reset_image_def apply_edits_src_img)
  have b: "params (reset_image s') ''TRANSFORM'' = Some PNone"
    "params (reset_image s') ''BOARD_EDGES'' = Some PNone"
    "params (reset_image s') ''BOARD_SIZE'' = Some PNone"
    by (simp_all add: reset_image_def)
  have c: "k \<noteq> ''TRANSFORM'' \<and> k \<noteq> ''BOARD_EDGES'' \<and> k \<noteq> ''BOARD_SIZE'' \<longrightarrow>
      params (reset_image s') k = params s' k"
    by (simp add: reset_image_def)
  have d: "res (reset_image s') = res s'" "img_file (reset_image s') = img_file s'"
    "src_img_file (reset_image s') = src_img_file s'" "gen_board (reset_image s') = gen_board s'"
    by (simp_all add: reset_image_def)
  show ?thesis
    using a c d by (simp add: b params_get_def)
qed

text \<open>
  A loaded session with image 1 is warped and rescaled to image 111; resetting gives
  image 1 again, clears \<open>BOARD_SIZE\<close> and keeps \<open>AREA_MASK\<close>.
\<close>

theorem reset_image_restores_source_witness:
  "img (fst (apply_edits stub_env
          [Transform (PList [PNum 1, PNum 2, PNum 3, PNum 4]), Resize (Some 50) None]
          loaded_session)) = Some 111 \<and>
   src_img loaded_session = Some 1 \<and>
   img (reset_image (fst (apply_edits stub_env
          [Transform (PList [PNum 1, PNum 2, PNum 3, PNum 4]), Resize (Some 50) None]
          loaded_session))) = Some 1 \<and>
   params (reset_image loaded_session) ''AREA_MASK'' = Some (PBool True) \<and>
   params (reset_image loaded_session) ''BOARD_SIZE'' = Some PNone"
proof -
  have i: "img (fst (apply_edits stub_env
          [Transform (PList [PNum 1, PNum 2, PNum 3, PNum 4]), Resize (Some 50) None]
          loaded_session)) = Some 111"
  proof -
    have "apply_edit stub_env (Transform (PList [PNum 1, PNum 2, PNum 3, PNum 4])) loaded_session =
        (loaded_session\<lparr>img := Some 11,
           params := (params loaded_session)
             (''TRANSFORM'' \<mapsto> PList [PNum 1, PNum 2, PNum 3, PNum 4])\<rparr>, Inr ())"
      by (simp add: apply_edit_def transform_image_def stub_env_def loaded_session_def)
    then have "fst (apply_edits stub_env
          [Transform (PList [PNum 1, PNum 2, PNum 3, PNum 4]), Resize (Some 50) None]
          loaded_session) =
        fst (apply_edit stub_env (Resize (Some 50) None)
          (loaded_session\<lparr>img := Some 11,
             params := (params loaded_session)
               (''TRANSFORM'' \<mapsto> PList [PNum 1, PNum 2, PNum 3, PNum 4])\<rparr>))"
      by (simp only: apply_edits_step apply_edits_single)
    then show ?thesis
      by (simp add: apply_edit_def resize_board_img stub_env_def)
  qed
  have s: "src_img loaded_session = Some 1"
    and p: "params loaded_session ''AREA_MASK'' = Some (PBool True)"
    by (simp_all add: loaded_session_def)
  have ne: "''AREA_MASK'' \<noteq> ''TRANSFORM'' \<and> ''AREA_MASK'' \<noteq> ''BOARD_EDGES'' \<and>
      ''AREA_MASK'' \<noteq> ''BOARD_SIZE''"
    by simp
  note t = reset_image_restores_source
      [of stub_env "[Transform (PList [PNum 1, PNum 2, PNum 3, PNum 4]), Resize (Some 50) None]"
          loaded_session loaded_session "''AREA_MASK''"]
  have 1: "img (reset_image (fst (apply_edits stub_env
          [Transform (PList [PNum 1, PNum 2, PNum 3, PNum 4]), Resize (Some 50) None]
          loaded_session))) = src_img loaded_session"
    using t by blast
  have 2: "params (reset_image loaded_session) ''AREA_MASK'' = params loaded_session ''AREA_MASK''"
    using t ne by blast
  have 3: "params (reset_image loaded_session) ''BOARD_SIZE'' = Some PNone"
    using t by blast
  show ?thesis
    using i s p 1 2 3 by simp
qed

subsection \<open>Resizing the board\<close>

text \<open>
  First the rounding to binary64: the bounds of the exponent, the error of the rounding
  (at most half a quantum, hence a relative error of at most \<open>2\<^sup>-\<^sup>5\<^sup>3\<close> in the normal
  range), and the numbers it leaves as they are (integers and dyadic fractions of fewer
  than 54 bits). Then the round trip of a truncated product, and the stones.
\<close>

lemma ilog2_bounds:
  assumes "0 < x"
  shows "2 powi (ilog2 x) \<le> x" and "x < 2 powi (ilog2 x + 1)"
proof -
  have "2 powi (ilog2 x) \<le> x \<and> x < 2 powi (ilog2 x + 1)"
  proof (cases "1 \<le> x")
    case True
    define n where "n = \<lfloor>x\<rfloor>"
    have n: "0 < n" using True by (simp add: n_def)
    have b1: "1 \<le> bitlen n" using n by (simp add: bitlen_alt_def)
    from bitlen_bounds [OF n] have lo: "2 ^ nat (bitlen n - 1) \<le> n" and hi: "n < 2 ^ nat (bitlen n)"
      by simp_all
    have e: "ilog2 x = bitlen n - 1" using True by (simp add: ilog2_def n_def)
    have "real_of_int n \<le> x" by (simp add: n_def)
    moreover have "(2::real) ^ nat (bitlen n - 1) \<le> real_of_int n"
      using lo by (metis of_int_le_iff of_int_numeral of_int_power)
    ultimately have "(2::real) ^ nat (bitlen n - 1) \<le> x" by linarith
    then have 1: "2 powi (ilog2 x) \<le> x"
      using b1 by (simp add: e power_int_def)
    have "n + 1 \<le> 2 ^ nat (bitlen n)" using hi by simp
    then have "real_of_int (n + 1) \<le> (2::real) ^ nat (bitlen n)"
      by (metis of_int_le_iff of_int_numeral of_int_power)
    moreover have "x < real_of_int (n + 1)" by (simp add: n_def)
    ultimately have "x < (2::real) ^ nat (bitlen n)" by linarith
    then have 2: "x < 2 powi (ilog2 x + 1)"
      using b1 by (simp add: e power_int_def)
    from 1 2 show ?thesis ..
  next
    case False
    define y where "y = 1 / x"
    define m where "m = \<lceil>y\<rceil> - 1"
    have y1: "1 < y" using False assms by (simp add: y_def)
    have m: "0 < m" using y1 by (simp add: m_def less_ceiling_iff)
    have e: "ilog2 x = - bitlen m" using False by (simp add: ilog2_def m_def y_def)
    have b1: "1 \<le> bitlen m" using m by (simp add: bitlen_alt_def)
    from bitlen_bounds [OF m] have lo: "2 ^ nat (bitlen m - 1) \<le> m" and hi: "m < 2 ^ nat (bitlen m)"
      by simp_all
    have "real_of_int m < y" unfolding m_def by linarith
    moreover have "(2::real) ^ nat (bitlen m - 1) \<le> real_of_int m"
      using lo by (metis of_int_le_iff of_int_numeral of_int_power)
    ultimately have ylo: "(2::real) ^ nat (bitlen m - 1) < y" by linarith
    have "m + 1 \<le> 2 ^ nat (bitlen m)" using hi by simp
    then have "real_of_int (m + 1) \<le> (2::real) ^ nat (bitlen m)"
      by (metis of_int_le_iff of_int_numeral of_int_power)
    moreover have "y \<le> real_of_int (m + 1)" unfolding m_def by simp
    ultimately have yhi: "y \<le> (2::real) ^ nat (bitlen m)" by linarith
    have x: "x = 1 / y" using assms by (simp add: y_def)
    have 1: "2 powi (ilog2 x) \<le> x"
    proof -
      have A: "1 / (2::real) ^ nat (bitlen m) \<le> x"
        unfolding x using yhi y1 by (intro divide_left_mono) simp_all
      have B: "2 powi (- bitlen m) = 1 / (2::real) ^ nat (bitlen m)"
        using b1 by (simp add: power_int_def inverse_eq_divide power_one_over)
      show ?thesis unfolding e B by (rule A)
    qed
    have 2: "x < 2 powi (ilog2 x + 1)"
    proof -
      have A: "x < 1 / (2::real) ^ nat (bitlen m - 1)"
        unfolding x using ylo y1 by (intro divide_strict_left_mono) simp_all
      have B: "2 powi (- bitlen m + 1) = 1 / (2::real) ^ nat (bitlen m - 1)"
      proof (cases "bitlen m = 1")
        case True
        then show ?thesis by simp
      next
        case False
        with b1 have "- bitlen m + 1 < 0" by simp
        moreover have "nat (- (- bitlen m + 1)) = nat (bitlen m - 1)" by simp
        ultimately show ?thesis
          by (simp add: power_int_def inverse_eq_divide power_one_over)
      qed
      show ?thesis unfolding e B by (rule A)
    qed
    from 1 2 show ?thesis ..
  qed
  then show "2 powi (ilog2 x) \<le> x" and "x < 2 powi (ilog2 x + 1)" by simp_all
qed

lemma round_half_even_error: "\<bar>of_int (round_half_even y) - y\<bar> \<le> 1 / 2"
  unfolding round_half_even_def by (simp add: abs_le_iff)

lemma round_half_even_of_int [simp]: "round_half_even (of_int z) = z"
  by (simp add: round_half_even_def)

lemma quantum_pos: "0 < quantum x"
  by (simp add: quantum_def)

lemma nearest64_error: "\<bar>nearest64 x - x\<bar> \<le> quantum x / 2"
proof (cases "x = 0")
  case True
  then show ?thesis using quantum_pos [of 0] by (simp add: nearest64_def)
next
  case False
  have q: "0 < quantum x" by (rule quantum_pos)
  have "\<bar>of_int (round_half_even (x / quantum x)) - x / quantum x\<bar> \<le> 1 / 2"
    by (rule round_half_even_error)
  then have "\<bar>of_int (round_half_even (x / quantum x)) - x / quantum x\<bar> * quantum x
      \<le> 1 / 2 * quantum x"
    using q by (intro mult_right_mono) simp_all
  moreover have "\<bar>of_int (round_half_even (x / quantum x)) - x / quantum x\<bar> * quantum x =
      \<bar>of_int (round_half_even (x / quantum x)) * quantum x - x\<bar>"
  proof -
    have "(of_int (round_half_even (x / quantum x)) - x / quantum x) * quantum x =
        of_int (round_half_even (x / quantum x)) * quantum x - x"
      using q by (simp add: left_diff_distrib)
    then have "\<bar>of_int (round_half_even (x / quantum x)) * quantum x - x\<bar> =
        \<bar>of_int (round_half_even (x / quantum x)) - x / quantum x\<bar> * \<bar>quantum x\<bar>"
      by (metis abs_mult)
    then show ?thesis using q by simp
  qed
  ultimately show ?thesis using False by (simp add: nearest64_def)
qed

lemma quantum_normal:
  assumes "1 / 2 ^ 1022 \<le> \<bar>x\<bar>"
  shows "quantum x \<le> \<bar>x\<bar> / 2 ^ 52"
proof -
  have pos: "0 < \<bar>x\<bar>"
    using assms by (rule less_le_trans [rotated]) simp
  define e where "e = ilog2 \<bar>x\<bar>"
  have lo: "2 powi e \<le> \<bar>x\<bar>" and hi: "\<bar>x\<bar> < 2 powi (e + 1)"
    unfolding e_def using ilog2_bounds [OF pos] by simp_all
  have "- 1022 < e + 1"
  proof (rule ccontr)
    assume "\<not> - 1022 < e + 1"
    then have "e + 1 \<le> - 1022" by simp
    then have "(2::real) powi (e + 1) \<le> 2 powi (- 1022)"
      by (rule power_int_increasing) simp
    also have "(2::real) powi (- 1022) = 1 / 2 ^ 1022"
      by (simp add: power_int_def inverse_eq_divide power_one_over)
    finally show False using hi assms by linarith
  qed
  then have m: "max (e - 52) (- 1074) = e - 52" by simp
  have "quantum x = 2 powi (e - 52)"
    by (simp add: quantum_def e_def [symmetric] m)
  also have "\<dots> = 2 powi e / 2 powi 52"
    by (rule power_int_diff) simp
  also have "\<dots> = 2 powi e / 2 ^ 52" by simp
  also have "\<dots> \<le> \<bar>x\<bar> / 2 ^ 52"
    using lo by (rule divide_right_mono) simp
  finally show ?thesis .
qed

lemma nearest64_zero [simp]: "nearest64 0 = 0"
  by (simp add: nearest64_def)

lemma nearest64_rel_error:
  assumes "x = 0 \<or> 1 / 2 ^ 1022 \<le> \<bar>x\<bar>"
  shows "\<bar>nearest64 x - x\<bar> \<le> \<bar>x\<bar> / 2 ^ 53"
proof (cases "x = 0")
  case True
  then show ?thesis by simp
next
  case False
  with assms have n: "1 / 2 ^ 1022 \<le> \<bar>x\<bar>" by simp
  have "\<bar>nearest64 x - x\<bar> \<le> quantum x / 2" by (rule nearest64_error)
  also have "\<dots> \<le> (\<bar>x\<bar> / 2 ^ 52) / 2"
    using quantum_normal [OF n] by (rule divide_right_mono) simp
  also have "\<dots> = \<bar>x\<bar> / 2 ^ 53" by simp
  finally show ?thesis .
qed

lemma quantum_le: "x \<noteq> 0 \<Longrightarrow> quantum x \<le> \<bar>x\<bar> + 1"
proof -
  assume "x \<noteq> 0"
  then have pos: "0 < \<bar>x\<bar>" by simp
  define e where "e = ilog2 \<bar>x\<bar>"
  have lo: "2 powi e \<le> \<bar>x\<bar>"
    unfolding e_def using ilog2_bounds [OF pos] by simp
  show ?thesis
  proof (cases "- 1074 \<le> e - 52")
    case True
    then have m: "max (e - 52) (- 1074) = e - 52" by simp
    have "quantum x = 2 powi (e - 52)"
      by (simp add: quantum_def e_def [symmetric] m)
    also have "\<dots> \<le> 2 powi e"
      by (rule power_int_increasing) simp_all
    finally show ?thesis using lo by linarith
  next
    case False
    then have m: "max (e - 52) (- 1074) = - 1074" by simp
    have "quantum x = 2 powi (- 1074)"
      by (simp only: quantum_def e_def [symmetric] m)
    also have "\<dots> \<le> 2 powi 0"
      by (rule power_int_increasing) simp_all
    finally show ?thesis using pos by simp
  qed
qed

lemma nearest64_bound: "\<bar>nearest64 x\<bar> \<le> 2 * \<bar>x\<bar> + 1"
proof (cases "x = 0")
  case True
  then show ?thesis by simp
next
  case False
  have "\<bar>nearest64 x - x\<bar> \<le> quantum x / 2" by (rule nearest64_error)
  moreover have "quantum x \<le> \<bar>x\<bar> + 1" using False by (rule quantum_le)
  ultimately show ?thesis by linarith
qed

lemma round64_finite: "\<bar>x\<bar> \<le> 2 ^ 1000 \<Longrightarrow> round64 x = Finite (nearest64 x)"
proof -
  assume a: "\<bar>x\<bar> \<le> 2 ^ 1000"
  have "\<bar>nearest64 x\<bar> \<le> 2 * \<bar>x\<bar> + 1" by (rule nearest64_bound)
  also have "\<dots> \<le> 2 * 2 ^ 1000 + 1" using a by simp
  also have "\<dots> < (2::real) ^ 1024" by simp
  finally show ?thesis by (simp add: round64_def)
qed

lemma nearest64_of_int:
  assumes "\<bar>n\<bar> < 2 ^ 53"
  shows "nearest64 (of_int n) = of_int n"
proof (cases "n = 0")
  case True
  then show ?thesis by simp
next
  case False
  define x :: real where "x = of_int n"
  have pos: "0 < \<bar>x\<bar>" using False by (simp add: x_def)
  define e where "e = ilog2 \<bar>x\<bar>"
  have lo: "2 powi e \<le> \<bar>x\<bar>"
    unfolding e_def using ilog2_bounds [OF pos] by simp
  have xb: "\<bar>x\<bar> < 2 ^ 53"
    using assms unfolding x_def by (metis of_int_abs of_int_less_iff of_int_numeral of_int_power)
  have "e < 53"
  proof (rule ccontr)
    assume "\<not> e < 53"
    then have "53 \<le> e" by simp
    then have "(2::real) powi 53 \<le> 2 powi e"
      by (rule power_int_increasing) simp
    then show False using lo xb by simp
  qed
  define k where "k = max (e - 52) (- 1074)"
  have k: "k \<le> 0" using \<open>e < 53\<close> by (simp add: k_def)
  define j where "j = nat (- k)"
  have q: "quantum x = 1 / 2 ^ j"
    using k by (auto simp: quantum_def e_def [symmetric] k_def [symmetric] j_def power_int_def
        inverse_eq_divide power_one_over)
  have "x / quantum x = x * 2 ^ j"
    unfolding q by simp
  also have "\<dots> = of_int (n * 2 ^ j)"
    by (simp add: x_def)
  finally have "x / quantum x = of_int (n * 2 ^ j)" .
  then have "round_half_even (x / quantum x) = n * 2 ^ j"
    by (simp only: round_half_even_of_int)
  then have "nearest64 x = of_int (n * 2 ^ j) * (1 / 2 ^ j)"
    using pos by (simp add: nearest64_def q)
  also have "\<dots> = x" by (simp add: x_def)
  finally show ?thesis by (simp add: x_def)
qed

lemma float_of_int_exact: "\<bar>n\<bar> < 2 ^ 53 \<Longrightarrow> float_of_int n = Finite (of_int n)"
proof -
  assume a: "\<bar>n\<bar> < 2 ^ 53"
  then have "\<bar>real_of_int n\<bar> < 2 ^ 53"
    by (metis of_int_abs of_int_less_iff of_int_numeral of_int_power)
  then have "\<bar>real_of_int n\<bar> \<le> 2 ^ 1000" by simp
  then show ?thesis
    by (simp add: float_of_int_def round64_finite nearest64_of_int [OF a])
qed

lemma round_half_even_nonneg: "0 \<le> y \<Longrightarrow> 0 \<le> round_half_even y"
  by (simp add: round_half_even_def)

lemma nearest64_nonneg: "0 \<le> x \<Longrightarrow> 0 \<le> nearest64 x"
  using quantum_pos [of x] by (simp add: nearest64_def round_half_even_nonneg)

lemma py_trunc_nonneg: "0 \<le> r \<Longrightarrow> py_trunc r = \<lfloor>r\<rfloor>"
  by (simp add: py_trunc_def)

lemma trunc_round_trip64:
  fixes x :: int and s t :: real
  assumes x0: "0 \<le> x" and x31: "x \<le> 2 ^ 31"
    and s_lo: "1 / 2 ^ 20 \<le> s" and s_hi: "s \<le> 2 ^ 20"
    and t: "\<bar>t - 1 / s\<bar> \<le> (1 / s) / 2 ^ 53"
  shows "py_trunc (nearest64 (of_int (py_trunc (nearest64 (of_int x * s))) * t)) \<le> x"
    and "of_int x - 1 / s - 2 <
           real_of_int (py_trunc (nearest64 (of_int (py_trunc (nearest64 (of_int x * s))) * t)))"
proof -
  define u :: real where "u = 1 / 2 ^ 53"
  define r where "r = 1 / s"
  define p where "p = real_of_int x * s"
  define a where "a = nearest64 p"
  define x1 where "x1 = py_trunc a"
  define w where "w = real_of_int x1 * r"
  define p2 where "p2 = real_of_int x1 * t"
  define b where "b = nearest64 p2"
  define x2 where "x2 = py_trunc b"
  have s_pos: "0 < s" using s_lo by (rule less_le_trans [rotated]) simp
  have r_pos: "0 < r" using s_pos by (simp add: r_def)
  have sr: "s * r = 1" using s_pos by (simp add: r_def)
  have r_hi: "r \<le> 2 ^ 20"
    using s_lo s_pos by (simp add: r_def field_simps)
  have r_lo: "1 / 2 ^ 20 \<le> r"
    using s_hi s_pos by (simp add: r_def field_simps)
  have u_pos: "0 < u" by (simp add: u_def)
  have xr0: "0 \<le> real_of_int x" using x0 by simp
  have xr31: "real_of_int x \<le> 2 ^ 31"
    using x31 by (metis of_int_le_iff of_int_numeral of_int_power)
  have p0: "0 \<le> p" using xr0 s_pos by (simp add: p_def)
  have pr: "p * r = real_of_int x"
    using sr by (simp add: p_def mult.assoc)
  have xu: "real_of_int x * u \<le> 1 / 2 ^ 22"
  proof -
    have "real_of_int x * u \<le> 2 ^ 31 * u"
      using xr31 u_pos by (intro mult_right_mono) simp_all
    then show ?thesis by (simp add: u_def)
  qed
  \<comment> \<open>first product\<close>
  have p_cond: "p = 0 \<or> 1 / 2 ^ 1022 \<le> \<bar>p\<bar>"
  proof (cases "x = 0")
    case True
    then show ?thesis by (simp add: p_def)
  next
    case False
    with x0 have "1 \<le> x" by simp
    then have "1 \<le> real_of_int x" by simp
    then have "1 * s \<le> real_of_int x * s"
      using s_pos by (intro mult_right_mono) simp_all
    then have "1 / 2 ^ 20 \<le> p" unfolding p_def using s_lo by linarith
    moreover have "(1::real) / 2 ^ 1022 \<le> 1 / 2 ^ 20" by simp
    ultimately show ?thesis using p0 by (simp only: abs_of_nonneg) linarith
  qed
  have a_err: "\<bar>a - p\<bar> \<le> p * u"
    using nearest64_rel_error [OF p_cond] p0 by (simp add: a_def u_def)
  have a0: "0 \<le> a" unfolding a_def using p0 by (rule nearest64_nonneg)
  have x1_floor: "x1 = \<lfloor>a\<rfloor>" unfolding x1_def using a0 by (rule py_trunc_nonneg)
  have x1_0: "0 \<le> x1" using a0 by (simp add: x1_floor)
  have x1_le: "real_of_int x1 \<le> a" unfolding x1_floor by linarith
  have x1_gt: "a - 1 < real_of_int x1" unfolding x1_floor by linarith
  have x1r0: "0 \<le> real_of_int x1" using x1_0 by simp
  \<comment> \<open>the truncated product, divided by the scale\<close>
  have w0: "0 \<le> w" using x1r0 r_pos by (simp add: w_def)
  have w_le: "w \<le> real_of_int x + real_of_int x * u"
  proof -
    have "real_of_int x1 \<le> p + p * u" using x1_le a_err by linarith
    then have "real_of_int x1 * r \<le> (p + p * u) * r"
      using r_pos by (intro mult_right_mono) simp_all
    also have "(p + p * u) * r = p * r + (p * r) * u" by (simp add: algebra_simps)
    finally show ?thesis by (simp add: w_def pr)
  qed
  have w_gt: "real_of_int x - real_of_int x * u - r < w"
  proof -
    have "p - p * u - 1 < real_of_int x1" using x1_gt a_err by linarith
    then have "(p - p * u - 1) * r < real_of_int x1 * r"
      using r_pos by (intro mult_strict_right_mono) simp_all
    moreover have "(p - p * u - 1) * r = p * r - (p * r) * u - r" by (simp add: algebra_simps)
    ultimately show ?thesis by (simp add: w_def pr)
  qed
  have w32: "w \<le> 2 ^ 32" using w_le xu xr31 by simp
  have wu: "w * u \<le> 1 / 2 ^ 21"
  proof -
    have "w * u \<le> 2 ^ 32 * u"
      using w32 u_pos by (intro mult_right_mono) simp_all
    then show ?thesis by (simp add: u_def)
  qed
  have wu0: "0 \<le> w * u" using w0 u_pos by simp
  \<comment> \<open>second product\<close>
  have t_le: "t \<le> r + r * u" and t_ge: "r - r * u \<le> t"
    using t by (simp_all add: r_def u_def abs_le_iff)
  have p2_le: "p2 \<le> w + w * u"
  proof -
    have "real_of_int x1 * t \<le> real_of_int x1 * (r + r * u)"
      using t_le x1r0 by (intro mult_left_mono) simp_all
    then show ?thesis by (simp add: p2_def w_def algebra_simps)
  qed
  have p2_ge: "w - w * u \<le> p2"
  proof -
    have "real_of_int x1 * (r - r * u) \<le> real_of_int x1 * t"
      using t_ge x1r0 by (intro mult_left_mono) simp_all
    then show ?thesis by (simp add: p2_def w_def algebra_simps)
  qed
  have ru: "r * u \<le> r / 2"
    using r_pos by (simp add: u_def)
  have t_pos: "0 < t" using t_ge ru r_pos by linarith
  have p2_0: "0 \<le> p2" using x1r0 t_pos by (simp add: p2_def)
  have p2_32: "p2 \<le> 2 ^ 33" using p2_le w32 wu by simp
  have p2u: "p2 * u \<le> 1 / 2 ^ 20"
  proof -
    have "p2 * u \<le> 2 ^ 33 * u"
      using p2_32 u_pos by (intro mult_right_mono) simp_all
    then show ?thesis by (simp add: u_def)
  qed
  have p2_cond: "p2 = 0 \<or> 1 / 2 ^ 1022 \<le> \<bar>p2\<bar>"
  proof (cases "x1 = 0")
    case True
    then show ?thesis by (simp add: p2_def)
  next
    case False
    with x1_0 have "1 \<le> x1" by simp
    then have "1 \<le> real_of_int x1" by simp
    then have "1 * t \<le> real_of_int x1 * t"
      using t_pos by (intro mult_right_mono) simp_all
    moreover have "r / 2 \<le> t" using t_ge ru by linarith
    moreover have "1 / 2 ^ 21 \<le> r / 2" using r_lo by simp
    moreover have "(1::real) / 2 ^ 1022 \<le> 1 / 2 ^ 21" by simp
    ultimately have "1 / 2 ^ 1022 \<le> p2" unfolding p2_def by linarith
    then show ?thesis using p2_0 by (simp only: abs_of_nonneg) simp
  qed
  have b_err: "\<bar>b - p2\<bar> \<le> p2 * u"
    using nearest64_rel_error [OF p2_cond] p2_0 by (simp add: b_def u_def)
  have b0: "0 \<le> b" unfolding b_def using p2_0 by (rule nearest64_nonneg)
  have x2_floor: "x2 = \<lfloor>b\<rfloor>" unfolding x2_def using b0 by (rule py_trunc_nonneg)
  have x2_le: "real_of_int x2 \<le> b" unfolding x2_floor by linarith
  have x2_gt: "b - 1 < real_of_int x2" unfolding x2_floor by linarith
  have pw: "(1::real) / 2 ^ 20 + 1 / 2 ^ 21 + 1 / 2 ^ 22 < 1" by simp
  have "real_of_int x2 < real_of_int x + 1"
    using x2_le b_err p2u p2_le wu w_le xu pw by linarith
  then have "x2 < x + 1" by linarith
  then have le: "x2 \<le> x" by simp
  have gt: "real_of_int x - r - 2 < real_of_int x2"
    using x2_gt b_err p2u p2_ge wu w_gt xu pw by linarith
  show "py_trunc (nearest64 (of_int (py_trunc (nearest64 (of_int x * s))) * t)) \<le> x"
    using le by (simp add: x2_def b_def p2_def x1_def a_def p_def)
  show "of_int x - 1 / s - 2 <
      real_of_int (py_trunc (nearest64 (of_int (py_trunc (nearest64 (of_int x * s))) * t)))"
    using gt by (simp add: x2_def b_def p2_def x1_def a_def p_def r_def)
qed

lemma nearest64_dyadic:
  assumes m: "\<bar>m\<bar> < 2 ^ 53" and j: "j \<le> 1074"
  shows "nearest64 (of_int m / 2 ^ j) = of_int m / 2 ^ j"
proof (cases "m = 0")
  case True
  then show ?thesis by simp
next
  case False
  define x :: real where "x = of_int m / 2 ^ j"
  have pos: "0 < \<bar>x\<bar>" using False by (simp add: x_def)
  define e where "e = ilog2 \<bar>x\<bar>"
  have lo: "2 powi e \<le> \<bar>x\<bar>"
    unfolding e_def using ilog2_bounds [OF pos] by simp
  have mb: "\<bar>real_of_int m\<bar> < 2 ^ 53"
    using m by (metis of_int_abs of_int_less_iff of_int_numeral of_int_power)
  have "\<bar>x\<bar> = \<bar>real_of_int m\<bar> / 2 ^ j" by (simp add: x_def)
  also have "\<dots> < 2 ^ 53 / 2 ^ j"
    using mb by (rule divide_strict_right_mono) simp
  also have "\<dots> = 2 powi (53 - int j)"
    by (simp add: power_int_diff)
  finally have xb: "\<bar>x\<bar> < 2 powi (53 - int j)" .
  have "e < 53 - int j"
  proof (rule ccontr)
    assume "\<not> e < 53 - int j"
    then have "53 - int j \<le> e" by simp
    then have "(2::real) powi (53 - int j) \<le> 2 powi e"
      by (rule power_int_increasing) simp
    then show False using lo xb by simp
  qed
  define k where "k = max (e - 52) (- 1074)"
  have k: "k \<le> - int j" using \<open>e < 53 - int j\<close> j by (simp add: k_def)
  define i where "i = nat (- k)"
  have ij: "j \<le> i" using k by (simp add: i_def)
  have q: "quantum x = 1 / 2 ^ i"
    using k by (auto simp: quantum_def e_def [symmetric] k_def [symmetric] i_def power_int_def
        inverse_eq_divide power_one_over)
  have pw: "(2::real) ^ i = 2 ^ (i - j) * 2 ^ j"
    using ij by (simp add: power_add [symmetric])
  have "x / quantum x = x * 2 ^ i"
    unfolding q by simp
  also have "\<dots> = of_int (m * 2 ^ (i - j))"
    by (simp add: x_def pw)
  finally have "round_half_even (x / quantum x) = m * 2 ^ (i - j)"
    by (simp only: round_half_even_of_int)
  then have "nearest64 x = of_int (m * 2 ^ (i - j)) * (1 / 2 ^ i)"
    using pos by (simp add: nearest64_def q)
  also have "\<dots> = x" by (simp add: x_def pw)
  finally show ?thesis by (simp add: x_def)
qed

lemma of_int_abs_less: "\<bar>n\<bar> < 2 ^ k \<Longrightarrow> \<bar>real_of_int n\<bar> < 2 ^ k"
  by (metis of_int_abs of_int_less_iff of_int_numeral of_int_power)

lemma scale_entry:
  assumes n: "\<bar>n\<bar> < 2 ^ 53" and s: "\<bar>s\<bar> \<le> 2 ^ 64"
  shows "int_of_float (fmul (float_of_int n) (Finite s)) =
           Inr (py_trunc (nearest64 (of_int n * s)))"
proof -
  have "\<bar>real_of_int n\<bar> * \<bar>s\<bar> \<le> 2 ^ 53 * 2 ^ 64"
    using of_int_abs_less [OF n] s by (intro mult_mono) simp_all
  then have "\<bar>real_of_int n * s\<bar> \<le> 2 ^ 1000"
    by (simp add: abs_mult)
  then have "round64 (real_of_int n * s) = Finite (nearest64 (real_of_int n * s))"
    by (rule round64_finite)
  then show ?thesis
    by (simp add: float_of_int_exact [OF n] int_of_float_def)
qed

lemma py_max_Finite: "py_max (Finite a) (Finite b) = Finite (max a b)"
  by (simp add: py_max_def max_def)

lemma resize_stone_grid:
  "GR_A (fst (resize_stone st sc)) = GR_A st" "GR_B (fst (resize_stone st sc)) = GR_B st"
  by (simp_all add: resize_stone_def Let_def split: sum.splits)

lemma resize_stone_X:
  "int_of_float (fmul (float_of_int (GR_X st)) (fst sc)) = Inr x1 \<Longrightarrow>
   GR_X (fst (resize_stone st sc)) = x1"
  by (simp add: resize_stone_def Let_def split: sum.splits)

lemma resize_stone_Y:
  "int_of_float (fmul (float_of_int (GR_X st)) (fst sc)) = Inr x1 \<Longrightarrow>
   int_of_float (fmul (float_of_int (GR_Y st)) (snd sc)) = Inr y1 \<Longrightarrow>
   GR_Y (fst (resize_stone st sc)) = y1"
  by (simp add: resize_stone_def Let_def split: sum.splits)

lemma resize_stone_ok:
  assumes "\<bar>sx\<bar> \<le> 2 ^ 64" and "\<bar>sy\<bar> \<le> 2 ^ 64"
    and "\<bar>GR_X st\<bar> < 2 ^ 53" and "\<bar>GR_Y st\<bar> < 2 ^ 53" and "\<bar>GR_R st\<bar> < 2 ^ 53"
  shows "resize_stone st (Finite sx, Finite sy) =
     (\<lparr>GR_X = py_trunc (nearest64 (of_int (GR_X st) * sx)),
       GR_Y = py_trunc (nearest64 (of_int (GR_Y st) * sy)),
       GR_A = GR_A st, GR_B = GR_B st,
       GR_R = py_trunc (nearest64 (of_int (GR_R st) * max sx sy))\<rparr>, None)"
proof -
  have m: "\<bar>max sx sy\<bar> \<le> 2 ^ 64" using assms(1,2) by (simp add: max_def)
  show ?thesis
    by (simp add: resize_stone_def Let_def py_max_Finite scale_entry [OF assms(3) assms(1)]
        scale_entry [OF assms(4) assms(2)] scale_entry [OF assms(5) m])
qed

lemma resize_stones_ok:
  assumes "\<bar>sx\<bar> \<le> 2 ^ 64" and "\<bar>sy\<bar> \<le> 2 ^ 64"
  shows "\<forall>st \<in> set sts. \<bar>GR_X st\<bar> < 2 ^ 53 \<and> \<bar>GR_Y st\<bar> < 2 ^ 53 \<and> \<bar>GR_R st\<bar> < 2 ^ 53 \<Longrightarrow>
     resize_stones sts (Finite sx, Finite sy) =
       (map (\<lambda>st. \<lparr>GR_X = py_trunc (nearest64 (of_int (GR_X st) * sx)),
                    GR_Y = py_trunc (nearest64 (of_int (GR_Y st) * sy)),
                    GR_A = GR_A st, GR_B = GR_B st,
                    GR_R = py_trunc (nearest64 (of_int (GR_R st) * max sx sy))\<rparr>) sts, None)"
proof (induction sts)
  case Nil
  show ?case by simp
next
  case (Cons st sts)
  then show ?case
    by (simp add: resize_stone_ok [OF assms])
qed

lemma resize_stones_grid:
  "length (fst (resize_stones sts sc)) = length sts \<and>
   (\<forall>n < length sts. GR_A (fst (resize_stones sts sc) ! n) = GR_A (sts ! n) \<and>
                      GR_B (fst (resize_stones sts sc) ! n) = GR_B (sts ! n))"
proof (induction sts)
  case Nil
  show ?case by simp
next
  case (Cons st sts)
  obtain st' r where a: "resize_stone st sc = (st', r)" by (cases "resize_stone st sc")
  have g: "GR_A st' = GR_A st" "GR_B st' = GR_B st"
    using resize_stone_grid [of st sc] a by simp_all
  obtain sts' r' where b: "resize_stones sts sc = (sts', r')" by (cases "resize_stones sts sc")
  show ?case
  proof (cases r)
    case None
    with a b g Cons.IH show ?thesis by (auto simp: nth_Cons split: nat.splits)
  next
    case (Some err)
    with a g show ?thesis by (auto simp: nth_Cons split: nat.splits)
  qed
qed

lemma first_step_bound:
  assumes "0 \<le> x" and "x \<le> 2 ^ 31" and "0 \<le> s" and "s \<le> 2 ^ 20"
  shows "\<bar>py_trunc (nearest64 (of_int x * s))\<bar> < 2 ^ 53"
proof -
  define p where "p = real_of_int x * s"
  have xr: "real_of_int x \<le> 2 ^ 31"
    using assms(2) by (metis of_int_le_iff of_int_numeral of_int_power)
  have p0: "0 \<le> p" using assms(1,3) by (simp add: p_def)
  have "real_of_int x * s \<le> 2 ^ 31 * 2 ^ 20"
    using xr assms by (intro mult_mono) simp_all
  then have p51: "p \<le> 2 ^ 51" by (simp add: p_def)
  have a0: "0 \<le> nearest64 p" using p0 by (rule nearest64_nonneg)
  have "\<bar>nearest64 p\<bar> \<le> 2 * \<bar>p\<bar> + 1" by (rule nearest64_bound)
  then have a: "nearest64 p \<le> 2 ^ 52 + 1" using p0 p51 a0 by simp
  have "py_trunc (nearest64 p) = \<lfloor>nearest64 p\<rfloor>" using a0 by (rule py_trunc_nonneg)
  moreover have "0 \<le> \<lfloor>nearest64 p\<rfloor>" using a0 by simp
  moreover have "\<lfloor>nearest64 p\<rfloor> \<le> 2 ^ 52 + 1"
  proof -
    have "real_of_int \<lfloor>nearest64 p\<rfloor> \<le> real_of_int (2 ^ 52 + 1)"
      using a by (simp add: le_floor_iff)
    then show ?thesis by (simp only: of_int_le_iff)
  qed
  ultimately show ?thesis by (simp add: p_def)
qed

lemma resize_board_ok:
  assumes "resize2 e (img s) max_size = Inr (im, sc)" and "res s = Some r"
    and "GR_STONES_B r = Some bs" and "GR_STONES_W r = Some ws"
    and "resize_stones bs sc = (bs', None)" and "resize_stones ws sc = (ws', None)"
  shows "resize_board e max_size scale_arg s =
     (s\<lparr>img := Some im,
        res := Some (r\<lparr>GR_STONES_B := Some bs', GR_STONES_W := Some ws',
                       GR_SPACING := (fmul (fst (GR_SPACING r)) (fst sc),
                                      fmul (snd (GR_SPACING r)) (snd sc)),
                       GR_EDGES := ((fmul (fst (fst (GR_EDGES r))) (fst sc),
                                     fmul (snd (fst (GR_EDGES r))) (snd sc)),
                                    (fmul (fst (snd (GR_EDGES r))) (fst sc),
                                     fmul (snd (snd (GR_EDGES r))) (snd sc)))\<rparr>)\<rparr>,
      Inr ())"
  using assms by (simp add: resize_board_def Let_def)

lemma reciprocal_bound:
  fixes s t :: real
  assumes "1 / 2 ^ 20 \<le> s" and "\<bar>t - 1 / s\<bar> \<le> (1 / s) / 2 ^ 53"
  shows "\<bar>t\<bar> \<le> 2 ^ 64"
proof -
  have s_pos: "0 < s" using assms(1) by (rule less_le_trans [rotated]) simp
  have r: "1 / s \<le> 2 ^ 20" using assms(1) s_pos by (simp add: field_simps)
  have r0: "0 < 1 / s" using s_pos by simp
  have "(1 / s) / 2 ^ 53 \<le> 1 / s" using r0 by (simp add: field_simps)
  then have "\<bar>t\<bar> \<le> 2 * (1 / s)" using assms(2) by linarith
  moreover have "2 * (2::real) ^ 20 \<le> 2 ^ 64" by simp
  ultimately show ?thesis using r by linarith
qed

lemma round_trip_X:
  assumes x: "0 \<le> GR_X st" "GR_X st \<le> 2 ^ 31"
    and s: "1 / 2 ^ 20 \<le> sx" "sx \<le> 2 ^ 20" and t: "\<bar>tx - 1 / sx\<bar> \<le> (1 / sx) / 2 ^ 53"
  shows "GR_X (fst (resize_stone (fst (resize_stone st (Finite sx, sy))) (Finite tx, ty))) =
     py_trunc (nearest64 (of_int (py_trunc (nearest64 (of_int (GR_X st) * sx))) * tx))"
proof -
  have xb: "\<bar>GR_X st\<bar> < 2 ^ 53" using x by simp
  have s0: "0 \<le> sx" using s(1) by (rule order_trans [rotated]) simp
  have sb: "\<bar>sx\<bar> \<le> 2 ^ 64" using s s0 by simp
  have 1: "GR_X (fst (resize_stone st (Finite sx, sy))) =
      py_trunc (nearest64 (of_int (GR_X st) * sx))"
    by (rule resize_stone_X) (simp add: scale_entry [OF xb sb])
  have x1b: "\<bar>py_trunc (nearest64 (of_int (GR_X st) * sx))\<bar> < 2 ^ 53"
    using x s0 s(2) by (rule first_step_bound)
  have tb: "\<bar>tx\<bar> \<le> 2 ^ 64" using s(1) t by (rule reciprocal_bound)
  show ?thesis
    by (rule resize_stone_X) (simp add: 1 scale_entry [OF x1b tb])
qed

lemma round_trip_Y:
  assumes x: "0 \<le> GR_X st" "GR_X st \<le> 2 ^ 31"
    and s: "1 / 2 ^ 20 \<le> sx" "sx \<le> 2 ^ 20" and t: "\<bar>tx - 1 / sx\<bar> \<le> (1 / sx) / 2 ^ 53"
    and y: "0 \<le> GR_Y st" "GR_Y st \<le> 2 ^ 31"
    and s': "1 / 2 ^ 20 \<le> sy" "sy \<le> 2 ^ 20" and t': "\<bar>ty - 1 / sy\<bar> \<le> (1 / sy) / 2 ^ 53"
  shows "GR_Y (fst (resize_stone (fst (resize_stone st (Finite sx, Finite sy))) (Finite tx, Finite ty))) =
     py_trunc (nearest64 (of_int (py_trunc (nearest64 (of_int (GR_Y st) * sy))) * ty))"
proof -
  have xb: "\<bar>GR_X st\<bar> < 2 ^ 53" using x by simp
  have yb: "\<bar>GR_Y st\<bar> < 2 ^ 53" using y by simp
  have s0: "0 \<le> sx" using s(1) by (rule order_trans [rotated]) simp
  have s0': "0 \<le> sy" using s'(1) by (rule order_trans [rotated]) simp
  have sb: "\<bar>sx\<bar> \<le> 2 ^ 64" using s s0 by simp
  have sb': "\<bar>sy\<bar> \<le> 2 ^ 64" using s' s0' by simp
  have 1: "GR_X (fst (resize_stone st (Finite sx, Finite sy))) =
      py_trunc (nearest64 (of_int (GR_X st) * sx))"
    by (rule resize_stone_X) (simp add: scale_entry [OF xb sb])
  have 2: "GR_Y (fst (resize_stone st (Finite sx, Finite sy))) =
      py_trunc (nearest64 (of_int (GR_Y st) * sy))"
    by (rule resize_stone_Y) (simp_all add: scale_entry [OF xb sb] scale_entry [OF yb sb'])
  have x1b: "\<bar>py_trunc (nearest64 (of_int (GR_X st) * sx))\<bar> < 2 ^ 53"
    using x s0 s(2) by (rule first_step_bound)
  have y1b: "\<bar>py_trunc (nearest64 (of_int (GR_Y st) * sy))\<bar> < 2 ^ 53"
    using y s0' s'(2) by (rule first_step_bound)
  have tb: "\<bar>tx\<bar> \<le> 2 ^ 64" using s(1) t by (rule reciprocal_bound)
  have tb': "\<bar>ty\<bar> \<le> 2 ^ 64" using s'(1) t' by (rule reciprocal_bound)
  show ?thesis
    by (rule resize_stone_Y) (simp_all add: 1 2 scale_entry [OF x1b tb] scale_entry [OF y1b tb'])
qed

text \<open>
  Claim C4, as the code has it. Let \<open>(sx, sy)\<close> be the per-axis factors that the image
  rescaling returns on a call of \<open>resize_board\<close> with a maximum size and no scale
  argument, both finite and of magnitude at most \<open>2\<^sup>6\<^sup>4\<close>, on a session whose result has
  both stone lists with entries of magnitude below \<open>2\<^sup>5\<^sup>3\<close>. Then \<open>resize_board\<close>
  raises nothing, replaces the image, and in the result replaces every stone's pixel x by
  the float product \<open>x * sx\<close> truncated toward zero, its pixel y by \<open>y * sy\<close> truncated,
  its radius by \<open>r * max sx sy\<close> truncated, keeps its grid column and row, replaces the
  spacing and the four edge coordinates by their float products with the factor of their
  axis, and changes nothing else. Whatever the factors, also when the loop stops with an
  exception, rescaling keeps the number of stones and every stone's grid column and row,
  once and twice in a row. When a stone's pixel x lies between 0 and \<open>2\<^sup>3\<^sup>1\<close>, the factor
  \<open>sx\<close> between \<open>2\<^sup>-\<^sup>2\<^sup>0\<close> and \<open>2\<^sup>2\<^sup>0\<close>, and \<open>tx\<close> is \<open>1 / sx\<close> up to a relative error
  of \<open>2\<^sup>-\<^sup>5\<^sup>3\<close> (as the float quotient is), rescaling by \<open>sx\<close> and then by \<open>tx\<close> returns
  the pixel x to a value \<open>x''\<close> with \<open>x - 1 / sx - 2 < x'' \<le> x\<close>; likewise for y.
\<close>

theorem resize_board_scales:
  "resize2 e (img s) max_size = Inr (im, (Finite sx, Finite sy)) \<Longrightarrow>
   \<bar>sx\<bar> \<le> 2 ^ 64 \<Longrightarrow> \<bar>sy\<bar> \<le> 2 ^ 64 \<Longrightarrow>
   res s = Some r \<Longrightarrow> GR_STONES_B r = Some bs \<Longrightarrow> GR_STONES_W r = Some ws \<Longrightarrow>
   \<forall>st \<in> set bs \<union> set ws. \<bar>GR_X st\<bar> < 2 ^ 53 \<and> \<bar>GR_Y st\<bar> < 2 ^ 53 \<and> \<bar>GR_R st\<bar> < 2 ^ 53 \<Longrightarrow>
   resize_board e max_size None s =
     (s\<lparr>img := Some im,
        res := Some
          (r\<lparr>GR_STONES_B := Some
                (map (\<lambda>st. \<lparr>GR_X = py_trunc (nearest64 (of_int (GR_X st) * sx)),
                             GR_Y = py_trunc (nearest64 (of_int (GR_Y st) * sy)),
                             GR_A = GR_A st, GR_B = GR_B st,
                             GR_R = py_trunc (nearest64 (of_int (GR_R st) * max sx sy))\<rparr>) bs),
              GR_STONES_W := Some
                (map (\<lambda>st. \<lparr>GR_X = py_trunc (nearest64 (of_int (GR_X st) * sx)),
                             GR_Y = py_trunc (nearest64 (of_int (GR_Y st) * sy)),
                             GR_A = GR_A st, GR_B = GR_B st,
                             GR_R = py_trunc (nearest64 (of_int (GR_R st) * max sx sy))\<rparr>) ws),
              GR_SPACING := (fmul (fst (GR_SPACING r)) (Finite sx),
                             fmul (snd (GR_SPACING r)) (Finite sy)),
              GR_EDGES := ((fmul (fst (fst (GR_EDGES r))) (Finite sx),
                            fmul (snd (fst (GR_EDGES r))) (Finite sy)),
                           (fmul (fst (snd (GR_EDGES r))) (Finite sx),
                            fmul (snd (snd (GR_EDGES r))) (Finite sy)))\<rparr>)\<rparr>,
      Inr ()) \<and>
   length (fst (resize_stones sts sc)) = length sts \<and>
   (n < length sts \<longrightarrow>
      GR_A (fst (resize_stones sts sc) ! n) = GR_A (sts ! n) \<and>
      GR_B (fst (resize_stones sts sc) ! n) = GR_B (sts ! n)) \<and>
   GR_A (fst (resize_stone (fst (resize_stone st sc)) sc')) = GR_A st \<and>
   GR_B (fst (resize_stone (fst (resize_stone st sc)) sc')) = GR_B st \<and>
   (0 \<le> GR_X st \<and> GR_X st \<le> 2 ^ 31 \<and> 1 / 2 ^ 20 \<le> sx \<and> sx \<le> 2 ^ 20 \<and>
    \<bar>tx - 1 / sx\<bar> \<le> (1 / sx) / 2 ^ 53 \<longrightarrow>
      GR_X (fst (resize_stone (fst (resize_stone st (Finite sx, Finite sy))) (Finite tx, Finite ty)))
        \<le> GR_X st \<and>
      of_int (GR_X st) - 1 / sx - 2 <
        real_of_int (GR_X (fst (resize_stone (fst (resize_stone st (Finite sx, Finite sy)))
                                  (Finite tx, Finite ty))))) \<and>
   (0 \<le> GR_X st \<and> GR_X st \<le> 2 ^ 31 \<and> 1 / 2 ^ 20 \<le> sx \<and> sx \<le> 2 ^ 20 \<and>
    \<bar>tx - 1 / sx\<bar> \<le> (1 / sx) / 2 ^ 53 \<and>
    0 \<le> GR_Y st \<and> GR_Y st \<le> 2 ^ 31 \<and> 1 / 2 ^ 20 \<le> sy \<and> sy \<le> 2 ^ 20 \<and>
    \<bar>ty - 1 / sy\<bar> \<le> (1 / sy) / 2 ^ 53 \<longrightarrow>
      GR_Y (fst (resize_stone (fst (resize_stone st (Finite sx, Finite sy))) (Finite tx, Finite ty)))
        \<le> GR_Y st \<and>
      of_int (GR_Y st) - 1 / sy - 2 <
        real_of_int (GR_Y (fst (resize_stone (fst (resize_stone st (Finite sx, Finite sy)))
                                  (Finite tx, Finite ty)))))"
proof -
  assume r2: "resize2 e (img s) max_size = Inr (im, (Finite sx, Finite sy))"
    and sx: "\<bar>sx\<bar> \<le> 2 ^ 64" and sy: "\<bar>sy\<bar> \<le> 2 ^ 64"
    and r: "res s = Some r" and bs: "GR_STONES_B r = Some bs" and ws: "GR_STONES_W r = Some ws"
    and fit: "\<forall>st \<in> set bs \<union> set ws.
        \<bar>GR_X st\<bar> < 2 ^ 53 \<and> \<bar>GR_Y st\<bar> < 2 ^ 53 \<and> \<bar>GR_R st\<bar> < 2 ^ 53"
  have fb: "\<forall>st \<in> set bs. \<bar>GR_X st\<bar> < 2 ^ 53 \<and> \<bar>GR_Y st\<bar> < 2 ^ 53 \<and> \<bar>GR_R st\<bar> < 2 ^ 53"
    and fw: "\<forall>st \<in> set ws. \<bar>GR_X st\<bar> < 2 ^ 53 \<and> \<bar>GR_Y st\<bar> < 2 ^ 53 \<and> \<bar>GR_R st\<bar> < 2 ^ 53"
    using fit by simp_all
  note board = resize_board_ok [OF r2 r bs ws resize_stones_ok [OF sx sy fb]
      resize_stones_ok [OF sx sy fw], of None]
  have 1: "length (fst (resize_stones sts sc)) = length sts"
    and 2: "n < length sts \<longrightarrow>
      GR_A (fst (resize_stones sts sc) ! n) = GR_A (sts ! n) \<and>
      GR_B (fst (resize_stones sts sc) ! n) = GR_B (sts ! n)"
    using resize_stones_grid [of sts sc] by simp_all
  have 3: "GR_A (fst (resize_stone (fst (resize_stone st sc)) sc')) = GR_A st"
    "GR_B (fst (resize_stone (fst (resize_stone st sc)) sc')) = GR_B st"
    by (simp_all add: resize_stone_grid)
  have 4: "GR_X (fst (resize_stone (fst (resize_stone st (Finite sx, Finite sy))) (Finite tx, Finite ty)))
        \<le> GR_X st \<and>
      of_int (GR_X st) - 1 / sx - 2 <
        real_of_int (GR_X (fst (resize_stone (fst (resize_stone st (Finite sx, Finite sy)))
                                  (Finite tx, Finite ty))))"
    if h: "0 \<le> GR_X st \<and> GR_X st \<le> 2 ^ 31 \<and> 1 / 2 ^ 20 \<le> sx \<and> sx \<le> 2 ^ 20 \<and>
        \<bar>tx - 1 / sx\<bar> \<le> (1 / sx) / 2 ^ 53"
  proof -
    from h have a: "0 \<le> GR_X st" "GR_X st \<le> 2 ^ 31" "1 / 2 ^ 20 \<le> sx" "sx \<le> 2 ^ 20"
      "\<bar>tx - 1 / sx\<bar> \<le> (1 / sx) / 2 ^ 53" by simp_all
    show ?thesis
      unfolding round_trip_X [OF a]
      using trunc_round_trip64 [OF a] by simp
  qed
  have 5: "GR_Y (fst (resize_stone (fst (resize_stone st (Finite sx, Finite sy))) (Finite tx, Finite ty)))
        \<le> GR_Y st \<and>
      of_int (GR_Y st) - 1 / sy - 2 <
        real_of_int (GR_Y (fst (resize_stone (fst (resize_stone st (Finite sx, Finite sy)))
                                  (Finite tx, Finite ty))))"
    if h: "0 \<le> GR_X st \<and> GR_X st \<le> 2 ^ 31 \<and> 1 / 2 ^ 20 \<le> sx \<and> sx \<le> 2 ^ 20 \<and>
        \<bar>tx - 1 / sx\<bar> \<le> (1 / sx) / 2 ^ 53 \<and>
        0 \<le> GR_Y st \<and> GR_Y st \<le> 2 ^ 31 \<and> 1 / 2 ^ 20 \<le> sy \<and> sy \<le> 2 ^ 20 \<and>
        \<bar>ty - 1 / sy\<bar> \<le> (1 / sy) / 2 ^ 53"
  proof -
    from h have a: "0 \<le> GR_X st" "GR_X st \<le> 2 ^ 31" "1 / 2 ^ 20 \<le> sx" "sx \<le> 2 ^ 20"
      "\<bar>tx - 1 / sx\<bar> \<le> (1 / sx) / 2 ^ 53" by simp_all
    from h have b: "0 \<le> GR_Y st" "GR_Y st \<le> 2 ^ 31" "1 / 2 ^ 20 \<le> sy" "sy \<le> 2 ^ 20"
      "\<bar>ty - 1 / sy\<bar> \<le> (1 / sy) / 2 ^ 53" by simp_all
    show ?thesis
      unfolding round_trip_Y [OF a b]
      using trunc_round_trip64 [OF b] by simp
  qed
  from board 1 2 3 4 5 show ?thesis by (simp only: fst_conv snd_conv) blast
qed

lemma round64_dyadic:
  assumes m: "\<bar>m\<bar> < 2 ^ 53" and j: "j \<le> 1074"
  shows "round64 (of_int m / 2 ^ j) = Finite (of_int m / 2 ^ j)"
proof -
  have "\<bar>real_of_int m / 2 ^ j\<bar> \<le> \<bar>real_of_int m\<bar>"
    by (simp add: abs_divide field_simps mult_le_cancel_left1)
  also have "\<dots> \<le> 2 ^ 1000" using of_int_abs_less [OF m] by simp
  finally have "round64 (of_int m / 2 ^ j) = Finite (nearest64 (of_int m / 2 ^ j))"
    by (rule round64_finite)
  then show ?thesis by (simp only: nearest64_dyadic [OF m j])
qed

lemma halves:
  "nearest64 (13 / 2) = 13 / 2" "nearest64 (17 / 2) = 17 / 2" "nearest64 (5 / 2) = 5 / 2"
  "nearest64 (33 / 2) = 33 / 2" "nearest64 (27 / 2) = 27 / 2" "nearest64 (23 / 2) = 23 / 2"
  "nearest64 (37 / 2) = 37 / 2" "nearest64 12 = 12"
  using nearest64_dyadic [of 13 1] nearest64_dyadic [of 17 1] nearest64_dyadic [of 5 1]
    nearest64_dyadic [of 33 1] nearest64_dyadic [of 27 1] nearest64_dyadic [of 23 1]
    nearest64_dyadic [of 37 1] nearest64_dyadic [of 12 0]
  by simp_all

lemma halves64:
  "round64 5 = Finite 5" "round64 (5 / 2) = Finite (5 / 2)" "round64 (95 / 2) = Finite (95 / 2)"
  using round64_dyadic [of 5 0] round64_dyadic [of 5 1] round64_dyadic [of 95 1]
  by simp_all

lemma floors:
  "\<lfloor>13 / 2 :: real\<rfloor> = 6" "\<lfloor>17 / 2 :: real\<rfloor> = 8" "\<lfloor>5 / 2 :: real\<rfloor> = 2"
  "\<lfloor>33 / 2 :: real\<rfloor> = 16" "\<lfloor>27 / 2 :: real\<rfloor> = 13" "\<lfloor>23 / 2 :: real\<rfloor> = 11"
  "\<lfloor>37 / 2 :: real\<rfloor> = 18" "\<lfloor>127 / 64 :: real\<rfloor> = 1" "\<lfloor>7 / 2 :: real\<rfloor> = 3"
  by simp_all

lemma seven_tenths:
  "nearest64 (15762598695796735 / 2251799813685248) = 7"
  "nearest64 (15762598695796735 / 4503599627370496) = 7 / 2"
  by code_simp+

text \<open>
  Halving the loaded session: the stone at pixel (13, 17) with radius 5 moves to (6, 8)
  with radius 2; halving and doubling returns x = 13 to 12. At the float nearest to 0.7
  the pixel 10 becomes 7, the float product being 7 where the exact product is less.
\<close>

theorem resize_board_scales_witness:
  "resize_board stub_env (Some 50) None loaded_session =
     (loaded_session\<lparr>img := Some 101,
        res := Some \<lparr>GR_STONES_B = Some [\<lparr>GR_X = 6, GR_Y = 8, GR_A = 1, GR_B = 1, GR_R = 2\<rparr>,
                                         \<lparr>GR_X = 16, GR_Y = 13, GR_A = 3, GR_B = 2, GR_R = 2\<rparr>],
                     GR_STONES_W = Some [\<lparr>GR_X = 11, GR_Y = 18, GR_A = 2, GR_B = 3, GR_R = 2\<rparr>],
                     GR_SPACING = (Finite 5, Finite 5),
                     GR_EDGES = ((Finite (5 / 2), Finite (5 / 2)), (Finite (95 / 2), Finite (95 / 2))),
                     GR_BOARD_SIZE = 9\<rparr>\<rparr>, Inr ()) \<and>
   GR_X (fst (resize_stone (fst (resize_stone stone_a1 (Finite (1 / 2), Finite (1 / 2))))
                (Finite 2, Finite 2))) = 12 \<and>
   GR_X stone_a1 = 13 \<and>
   resize_stone \<lparr>GR_X = 10, GR_Y = 10, GR_A = 4, GR_B = 4, GR_R = 5\<rparr>
       (Finite (3152519739159347 / 4503599627370496),
        Finite (3152519739159347 / 4503599627370496)) =
     (\<lparr>GR_X = 7, GR_Y = 7, GR_A = 4, GR_B = 4, GR_R = 3\<rparr>, None)"
proof -
  have a: "resize2 stub_env (img loaded_session) (Some 50) = Inr (101, (Finite (1 / 2), Finite (1 / 2)))"
    "\<bar>1 / 2 :: real\<bar> \<le> 2 ^ 64" "\<bar>1 / 2 :: real\<bar> \<le> 2 ^ 64"
    "res loaded_session = Some two_one_result"
    "GR_STONES_B two_one_result = Some [stone_a1, stone_c2]"
    "GR_STONES_W two_one_result = Some [stone_b3]"
    "\<forall>st \<in> set [stone_a1, stone_c2] \<union> set [stone_b3].
        \<bar>GR_X st\<bar> < 2 ^ 53 \<and> \<bar>GR_Y st\<bar> < 2 ^ 53 \<and> \<bar>GR_R st\<bar> < 2 ^ 53"
    by (simp_all add: stub_env_def loaded_session_def two_one_result_def stone_a1_def
        stone_c2_def stone_b3_def)
  note t = resize_board_scales [OF a, of "[]" "(NaN, NaN)" 0 stone_a1 "(NaN, NaN)" 2 2]
  have h: "0 \<le> GR_X stone_a1 \<and> GR_X stone_a1 \<le> 2 ^ 31 \<and> 1 / 2 ^ 20 \<le> (1 / 2 :: real) \<and>
      (1 / 2 :: real) \<le> 2 ^ 20 \<and> \<bar>2 - 1 / (1 / 2 :: real)\<bar> \<le> (1 / (1 / 2)) / 2 ^ 53"
    by (simp add: stone_a1_def)
  have b: "GR_X (fst (resize_stone (fst (resize_stone stone_a1 (Finite (1 / 2), Finite (1 / 2))))
                (Finite 2, Finite 2))) \<le> GR_X stone_a1"
    using t h by blast
  have x: "GR_X (fst (resize_stone (fst (resize_stone stone_a1 (Finite (1 / 2), Finite (1 / 2))))
                (Finite 2, Finite 2))) = 12"
    by (simp add: resize_stone_ok stone_a1_def halves floors py_trunc_def)
  have board: "resize_board stub_env (Some 50) None loaded_session =
     (loaded_session\<lparr>img := Some 101,
        res := Some
          (two_one_result\<lparr>GR_STONES_B := Some
                (map (\<lambda>st. \<lparr>GR_X = py_trunc (nearest64 (of_int (GR_X st) * (1 / 2))),
                             GR_Y = py_trunc (nearest64 (of_int (GR_Y st) * (1 / 2))),
                             GR_A = GR_A st, GR_B = GR_B st,
                             GR_R = py_trunc (nearest64 (of_int (GR_R st) * max (1 / 2) (1 / 2)))\<rparr>)
                     [stone_a1, stone_c2]),
              GR_STONES_W := Some
                (map (\<lambda>st. \<lparr>GR_X = py_trunc (nearest64 (of_int (GR_X st) * (1 / 2))),
                             GR_Y = py_trunc (nearest64 (of_int (GR_Y st) * (1 / 2))),
                             GR_A = GR_A st, GR_B = GR_B st,
                             GR_R = py_trunc (nearest64 (of_int (GR_R st) * max (1 / 2) (1 / 2)))\<rparr>)
                     [stone_b3]),
              GR_SPACING := (fmul (fst (GR_SPACING two_one_result)) (Finite (1 / 2)),
                             fmul (snd (GR_SPACING two_one_result)) (Finite (1 / 2))),
              GR_EDGES := ((fmul (fst (fst (GR_EDGES two_one_result))) (Finite (1 / 2)),
                            fmul (snd (fst (GR_EDGES two_one_result))) (Finite (1 / 2))),
                           (fmul (fst (snd (GR_EDGES two_one_result))) (Finite (1 / 2)),
                            fmul (snd (snd (GR_EDGES two_one_result))) (Finite (1 / 2))))\<rparr>)\<rparr>,
      Inr ())"
    using t by blast
  have s7: "resize_stone \<lparr>GR_X = 10, GR_Y = 10, GR_A = 4, GR_B = 4, GR_R = 5\<rparr>
       (Finite (3152519739159347 / 4503599627370496),
        Finite (3152519739159347 / 4503599627370496)) =
     (\<lparr>GR_X = 7, GR_Y = 7, GR_A = 4, GR_B = 4, GR_R = 3\<rparr>, None)"
    by (simp add: resize_stone_ok seven_tenths floors py_trunc_def)
  show ?thesis
    unfolding board x s7
    by (simp add: two_one_result_def stone_a1_def stone_c2_def stone_b3_def halves halves64
        floors py_trunc_def)
qed

text \<open>
  Claim C4 as stated fails: the pixel coordinates and the radius are not multiplied by
  the factors but multiplied and truncated. At scale 1/2 the pixel x = 13 becomes 6, not
  6.5, and the radius 5 becomes 2, not 2.5. At scale 1/64 followed by scale 64 the
  pixel x = 127 returns as 64. And the scale argument is not read: the calls with the
  scale arguments (2, 2) and (1/2, 1/2) have the same outcome.
\<close>

theorem resize_truncates_pixels:
  "GR_X stone_a1 = 13 \<and> GR_R stone_a1 = 5 \<and>
   resize_stones [stone_a1] (Finite (1 / 2), Finite (1 / 2)) =
     ([\<lparr>GR_X = 6, GR_Y = 8, GR_A = 1, GR_B = 1, GR_R = 2\<rparr>], None) \<and>
   real_of_int 6 \<noteq> real_of_int (GR_X stone_a1) * (1 / 2) \<and>
   real_of_int 2 \<noteq> real_of_int (GR_R stone_a1) * max (1 / 2) (1 / 2) \<and>
   GR_X (fst (resize_stone
               (fst (resize_stone \<lparr>GR_X = 127, GR_Y = 127, GR_A = 1, GR_B = 1, GR_R = 64\<rparr>
                       (Finite (1 / 64), Finite (1 / 64))))
               (Finite 64, Finite 64))) = 64 \<and>
   resize_board stub_env (Some 50) (Some (Finite 2, Finite 2)) loaded_session =
     resize_board stub_env (Some 50) (Some (Finite (1 / 2), Finite (1 / 2))) loaded_session"
proof -
  have d: "nearest64 (127 / 64) = 127 / 64" "nearest64 1 = 1" "nearest64 64 = 64"
    using nearest64_dyadic [of 127 6] nearest64_dyadic [of 1 0] nearest64_dyadic [of 64 0]
    by simp_all
  have 1: "resize_stones [stone_a1] (Finite (1 / 2), Finite (1 / 2)) =
     ([\<lparr>GR_X = 6, GR_Y = 8, GR_A = 1, GR_B = 1, GR_R = 2\<rparr>], None)"
    by (simp add: resize_stone_ok stone_a1_def halves floors py_trunc_def)
  have 2: "GR_X (fst (resize_stone
               (fst (resize_stone \<lparr>GR_X = 127, GR_Y = 127, GR_A = 1, GR_B = 1, GR_R = 64\<rparr>
                       (Finite (1 / 64), Finite (1 / 64))))
               (Finite 64, Finite 64))) = 64"
    by (simp add: resize_stone_ok d floors py_trunc_def)
  have 3: "resize_board stub_env (Some 50) (Some (Finite 2, Finite 2)) loaded_session =
     resize_board stub_env (Some 50) (Some (Finite (1 / 2), Finite (1 / 2))) loaded_session"
    by (simp add: resize_board_def)
  show ?thesis
    unfolding 1 2 3 by (simp add: stone_a1_def)
qed

subsection \<open>Finding a stone\<close>

lemma py_int_1: "py_int ''1'' = Inr 1"
  by (simp add: py_int_def py_strip_def py_isspace_def parse_unsigned_def py_isdigit_def
      digit_val_def)

lemma py_int_10: "py_int ''10'' = Inr 10"
  by (simp add: py_int_def py_strip_def py_isspace_def parse_unsigned_def py_isdigit_def
      digit_val_def)

lemma find_local_label:
  "py_int ds = Inr n \<Longrightarrow>
   find_local e None None (Some (ch # ds)) sts =
     Inr (find_position e (py_ord (py_upper ch) - py_ord CHR ''A'' + 1) n sts)"
  by (simp add: find_local_def)

lemma find_local_A1: "find_local e None None (Some ''A1'') sts = Inr (find_position e 1 1 sts)"
  using find_local_label [OF py_int_1, of e "CHR ''A''" sts]
  by (simp add: py_ord_def py_upper_def)

lemma find_local_J10: "find_local e None None (Some ''J10'') sts = Inr (find_position e 10 10 sts)"
  using find_local_label [OF py_int_10, of e "CHR ''J''" sts]
  by (simp add: py_ord_def py_upper_def)

lemma find_local_position:
  "find_local e None (Some (a, b)) s sts = Inr (find_position e a b sts)"
  by (simp add: find_local_def)

lemma find_stone_cong:
  assumes h: "\<And>sts. find_local e c p s sts = find_local e c' p' s' sts"
  shows "find_stone e c p s bw ses = find_stone e c' p' s' bw ses"
proof -
  have feq: "find_local e c p s = find_local e c' p' s'"
    by (rule ext) (rule h)
  show ?thesis
    unfolding find_stone_def feq ..
qed

text \<open>
  Claim C6, as the code has it. Without a result \<open>find_stone\<close> returns both fields
  absent. With a result and no colour given it searches the black stones first and
  returns a stone found there with \<open>B\<close>; else it searches the white stones and returns a
  stone found there with \<open>W\<close>; else both fields are absent. With the colour \<open>B\<close> or
  \<open>W\<close> given it searches only that colour's stones and returns what the search gives
  together with the given colour, also when the search finds nothing. A search is by
  screen coordinates, else by grid position, else by label, where the column is the
  position of the label's first letter in the alphabet (no letter skipped, upper or
  lower case) and the row is the number that follows. So the label A1 finds what the
  grid position (1, 1) finds, and J10 what (10, 10) finds.
\<close>

theorem find_stone_lookup:
  "(res ses = None \<longrightarrow> find_stone e c p s bw ses = Inr (None, None)) \<and>
   (res ses = Some r \<and> find_local e c p s (GR_STONES_B r) = Inr (Some st) \<longrightarrow>
      find_stone e c p s None ses = Inr (Some st, Some ''B'')) \<and>
   (res ses = Some r \<and> find_local e c p s (GR_STONES_B r) = Inr None \<and>
    find_local e c p s (GR_STONES_W r) = Inr (Some st) \<longrightarrow>
      find_stone e c p s None ses = Inr (Some st, Some ''W'')) \<and>
   (res ses = Some r \<and> find_local e c p s (GR_STONES_B r) = Inr None \<and>
    find_local e c p s (GR_STONES_W r) = Inr None \<longrightarrow>
      find_stone e c p s None ses = Inr (None, None)) \<and>
   (res ses = Some r \<and> find_local e c p s (GR_STONES_B r) = Inr x \<longrightarrow>
      find_stone e c p s (Some ''B'') ses = Inr (x, Some ''B'')) \<and>
   (res ses = Some r \<and> find_local e c p s (GR_STONES_W r) = Inr x \<longrightarrow>
      find_stone e c p s (Some ''W'') ses = Inr (x, Some ''W'')) \<and>
   find_local e (Some (px, py)) p s sts = Inr (find_coord e px py sts) \<and>
   find_local e None (Some (a, b)) s sts = Inr (find_position e a b sts) \<and>
   (py_int ds = Inr n \<longrightarrow>
      find_local e None None (Some (ch # ds)) sts =
        Inr (find_position e (py_ord (py_upper ch) - py_ord CHR ''A'' + 1) n sts)) \<and>
   find_stone e None None (Some ''A1'') bw ses = find_stone e None (Some (1, 1)) s' bw ses \<and>
   find_stone e None None (Some ''J10'') bw ses = find_stone e None (Some (10, 10)) s' bw ses"
proof -
  have 1: "res ses = None \<longrightarrow> find_stone e c p s bw ses = Inr (None, None)"
    by (simp add: find_stone_def)
  have 2: "res ses = Some r \<and> find_local e c p s (GR_STONES_B r) = Inr (Some st) \<longrightarrow>
      find_stone e c p s None ses = Inr (Some st, Some ''B'')"
    by (simp add: find_stone_def black_stones_def)
  have 3: "res ses = Some r \<and> find_local e c p s (GR_STONES_B r) = Inr None \<and>
    find_local e c p s (GR_STONES_W r) = Inr (Some st) \<longrightarrow>
      find_stone e c p s None ses = Inr (Some st, Some ''W'')"
    by (simp add: find_stone_def black_stones_def white_stones_def)
  have 4: "res ses = Some r \<and> find_local e c p s (GR_STONES_B r) = Inr None \<and>
    find_local e c p s (GR_STONES_W r) = Inr None \<longrightarrow>
      find_stone e c p s None ses = Inr (None, None)"
    by (simp add: find_stone_def black_stones_def white_stones_def)
  have 5: "res ses = Some r \<and> find_local e c p s (GR_STONES_B r) = Inr x \<longrightarrow>
      find_stone e c p s (Some ''B'') ses = Inr (x, Some ''B'')"
    by (simp add: find_stone_def stones_item_def)
  have 6: "res ses = Some r \<and> find_local e c p s (GR_STONES_W r) = Inr x \<longrightarrow>
      find_stone e c p s (Some ''W'') ses = Inr (x, Some ''W'')"
    by (simp add: find_stone_def stones_item_def)
  have 7: "find_local e (Some (px, py)) p s sts = Inr (find_coord e px py sts)"
    by (simp add: find_local_def)
  have 8: "py_int ds = Inr n \<longrightarrow>
      find_local e None None (Some (ch # ds)) sts =
        Inr (find_position e (py_ord (py_upper ch) - py_ord CHR ''A'' + 1) n sts)"
    by (simp add: find_local_label)
  have 9: "find_stone e None None (Some ''A1'') bw ses = find_stone e None (Some (1, 1)) s' bw ses"
    by (rule find_stone_cong) (simp only: find_local_A1 find_local_position)
  have 10: "find_stone e None None (Some ''J10'') bw ses = find_stone e None (Some (10, 10)) s' bw ses"
    by (rule find_stone_cong) (simp only: find_local_J10 find_local_position)
  show ?thesis
    using 1 2 3 4 5 6 7 8 9 10 find_local_position [of e a b s sts] by blast
qed

text \<open>
  On the session with black stones at A1 and C2 and a white stone at B3. A space before
  the row number is dropped; the character of code 28 is not, and the label is refused.
\<close>

theorem find_stone_lookup_witness:
  "res loaded_session = Some two_one_result \<and>
   find_stone stub_env None None (Some ''A1'') None loaded_session = Inr (Some stone_a1, Some ''B'') \<and>
   find_stone stub_env None (Some (1, 1)) None None loaded_session = Inr (Some stone_a1, Some ''B'') \<and>
   find_stone stub_env None (Some (2, 3)) None None loaded_session = Inr (Some stone_b3, Some ''W'') \<and>
   find_stone stub_env None (Some (9, 9)) None None loaded_session = Inr (None, None) \<and>
   find_stone stub_env None (Some (2, 3)) None (Some ''W'') loaded_session = Inr (Some stone_b3, Some ''W'') \<and>
   find_stone stub_env None (Some (2, 3)) None (Some ''B'') loaded_session = Inr (None, Some ''B'') \<and>
   find_stone stub_env None (Some (1, 1)) None None empty_session = Inr (None, None) \<and>
   find_stone stub_env None None (Some ''B 3'') None loaded_session = Inr (Some stone_b3, Some ''W'') \<and>
   find_stone stub_env None None (Some [CHR ''B'', CHR 0x1C, CHR ''3'']) None loaded_session =
     Inl ValueError"
proof -
  have r: "res loaded_session = Some two_one_result" and r0: "res empty_session = None"
    by (simp_all add: loaded_session_def empty_session_def)
  have b11: "find_local stub_env None (Some (1, 1)) None (GR_STONES_B two_one_result) = Inr (Some stone_a1)"
    and b23: "find_local stub_env None (Some (2, 3)) None (GR_STONES_B two_one_result) = Inr None"
    and w23: "find_local stub_env None (Some (2, 3)) None (GR_STONES_W two_one_result) = Inr (Some stone_b3)"
    and b99: "find_local stub_env None (Some (9, 9)) None (GR_STONES_B two_one_result) = Inr None"
    and w99: "find_local stub_env None (Some (9, 9)) None (GR_STONES_W two_one_result) = Inr None"
    by (simp_all add: find_local_def stub_env_def stone_at_def two_one_result_def stone_a1_def
        stone_c2_def stone_b3_def)
  have 1: "find_stone stub_env None (Some (1, 1)) None None loaded_session = Inr (Some stone_a1, Some ''B'')"
    using find_stone_lookup [of loaded_session stub_env None "Some (1, 1)" None None two_one_result stone_a1]
      r b11 by blast
  have 2: "find_stone stub_env None None (Some ''A1'') None loaded_session =
      find_stone stub_env None (Some (1, 1)) None None loaded_session"
    using find_stone_lookup [of loaded_session stub_env None None None None two_one_result stone_a1]
    by blast
  have 3: "find_stone stub_env None (Some (2, 3)) None None loaded_session = Inr (Some stone_b3, Some ''W'')"
    using find_stone_lookup [of loaded_session stub_env None "Some (2, 3)" None None two_one_result stone_b3]
      r b23 w23 by blast
  have 4: "find_stone stub_env None (Some (9, 9)) None None loaded_session = Inr (None, None)"
    using find_stone_lookup [of loaded_session stub_env None "Some (9, 9)" None None two_one_result]
      r b99 w99 by blast
  have 5: "find_stone stub_env None (Some (2, 3)) None (Some ''W'') loaded_session = Inr (Some stone_b3, Some ''W'')"
    using find_stone_lookup [of loaded_session stub_env None "Some (2, 3)" None None two_one_result _ "Some stone_b3"]
      r w23 by blast
  have 6: "find_stone stub_env None (Some (2, 3)) None (Some ''B'') loaded_session = Inr (None, Some ''B'')"
    using find_stone_lookup [of loaded_session stub_env None "Some (2, 3)" None None two_one_result _ None]
      r b23 by blast
  have 7: "find_stone stub_env None (Some (1, 1)) None None empty_session = Inr (None, None)"
    using find_stone_lookup [of empty_session stub_env None "Some (1, 1)" None None] r0 by blast
  have 8: "find_stone stub_env None None (Some ''B 3'') None loaded_session =
      Inr (Some stone_b3, Some ''W'')"
    "find_stone stub_env None None (Some [CHR ''B'', CHR 0x1C, CHR ''3'']) None loaded_session =
      Inl ValueError"
    by (simp_all add: find_stone_def find_local_def black_stones_def white_stones_def
        py_int_def py_strip_def py_isspace_def parse_unsigned_def py_isdigit_def digit_val_def
        py_upper_def py_ord_def stub_env_def stone_at_def loaded_session_def two_one_result_def
        stone_a1_def stone_c2_def stone_b3_def)
  show ?thesis
    using r 1 2 3 4 5 6 7 8 by simp
qed

text \<open>
  Claim C6 as stated fails: with a colour given and no stone at the position, the
  colour returned is the given one, not absent. No black stone is at (9, 9).
\<close>

theorem find_stone_no_match_keeps_colour:
  "res loaded_session = Some two_one_result \<and>
   GR_STONES_B two_one_result = Some [stone_a1, stone_c2] \<and>
   (GR_A stone_a1, GR_B stone_a1) = (1, 1) \<and> (GR_A stone_c2, GR_B stone_c2) = (3, 2) \<and>
   find_stone stub_env None (Some (9, 9)) None (Some ''B'') loaded_session = Inr (None, Some ''B'') \<and>
   find_stone stub_env None (Some (9, 9)) None (Some ''B'') loaded_session \<noteq> Inr (None, None)"
  by (simp add: find_stone_def find_local_def stones_item_def stub_env_def stone_at_def
      loaded_session_def two_one_result_def stone_a1_def stone_c2_def stone_b3_def)

subsection \<open>Exporting the game record\<close>

lemma concat_singletons: "concat (map (\<lambda>n. [f n]) ns) = map f ns"
  by (induction ns) simp_all

lemma index_loop_alternate:
  "concat (map (\<lambda>n. (if n < length xs then [xs ! n] else []) @
                    (if n < length ys then [ys ! n] else []))
               [0..<max (length ys) (length xs)]) = alternate xs ys"
proof (induction xs ys rule: alternate.induct)
  case (1 ys)
  have "concat (map (\<lambda>n. if n < length ys then [ys ! n] else []) [0..<length ys]) =
        concat (map (\<lambda>n. [ys ! n]) [0..<length ys])"
    by (rule arg_cong [where f = concat], rule map_cong) simp_all
  also have "\<dots> = ys"
    by (simp add: concat_singletons map_nth)
  finally show ?case by simp
next
  case (2 x xs)
  have "concat (map (\<lambda>n. if n < length (x # xs) then [(x # xs) ! n] else []) [0..<length (x # xs)]) =
        concat (map (\<lambda>n. [(x # xs) ! n]) [0..<length (x # xs)])"
    by (rule arg_cong [where f = concat], rule map_cong) auto
  also have "\<dots> = x # xs"
    unfolding concat_singletons by (rule map_nth)
  finally show ?case by simp
next
  case (3 x xs y ys)
  have "[0..<max (length (y # ys)) (length (x # xs))] =
        0 # map Suc [0..<max (length ys) (length xs)]"
    by (simp add: upt_conv_Cons map_Suc_upt del: upt_Suc)
  then show ?case
    using 3 by (simp add: comp_def del: upt_Suc cong: if_cong)
qed

lemma sgf_moves_alternate:
  "sgf_moves bs ws =
     alternate (map (\<lambda>st. (CHR ''b'', GR_B st - 1, GR_A st - 1)) bs)
               (map (\<lambda>st. (CHR ''w'', GR_B st - 1, GR_A st - 1)) ws)"
proof -
  have "sgf_moves bs ws =
      concat (map (\<lambda>n.
          (if n < length (map (\<lambda>st. (CHR ''b'', GR_B st - 1, GR_A st - 1)) bs)
           then [map (\<lambda>st. (CHR ''b'', GR_B st - 1, GR_A st - 1)) bs ! n] else []) @
          (if n < length (map (\<lambda>st. (CHR ''w'', GR_B st - 1, GR_A st - 1)) ws)
           then [map (\<lambda>st. (CHR ''w'', GR_B st - 1, GR_A st - 1)) ws ! n] else []))
        [0..<max (length (map (\<lambda>st. (CHR ''w'', GR_B st - 1, GR_A st - 1)) ws))
                 (length (map (\<lambda>st. (CHR ''b'', GR_B st - 1, GR_A st - 1)) bs))])"
    unfolding sgf_moves_def
    by (rule arg_cong [where f = concat], rule map_cong)
       (simp_all add: add_stone_def stone_minus1_def)
  then show ?thesis
    by (simp only: index_loop_alternate)
qed

lemma alternate_length: "length (alternate xs ys) = length xs + length ys"
  by (induction xs ys rule: alternate.induct) simp_all

lemma alternate_nth:
  "n < length xs \<Longrightarrow> n < length ys \<Longrightarrow>
   alternate xs ys ! (2 * n) = xs ! n \<and> alternate xs ys ! (2 * n + 1) = ys ! n"
proof (induction xs ys arbitrary: n rule: alternate.induct)
  case (3 x xs y ys)
  show ?case
  proof (cases n)
    case 0
    then show ?thesis by simp
  next
    case (Suc m)
    with 3 show ?thesis by simp
  qed
qed simp_all

lemma alternate_filter:
  "(\<forall>x \<in> set xs. P x) \<Longrightarrow> (\<forall>y \<in> set ys. \<not> P y) \<Longrightarrow>
   filter P (alternate xs ys) = xs \<and> filter (\<lambda>z. \<not> P z) (alternate xs ys) = ys"
  by (induction xs ys rule: alternate.induct) (simp_all add: filter_id_conv)

lemma alternate_set: "set (alternate xs ys) = set xs \<union> set ys"
  by (induction xs ys rule: alternate.induct) auto

lemma set_moves_all:
  "set_moves sz ms = (if \<forall>m \<in> set ms. on_board sz m then Inr ms else Inl ValueError)"
  by (induction ms) auto

lemma on_board_stone:
  "on_board sz (c, GR_B st - 1, GR_A st - 1) \<longleftrightarrow>
     1 \<le> GR_A st \<and> GR_A st \<le> sz \<and> 1 \<le> GR_B st \<and> GR_B st \<le> sz"
  by (auto simp: on_board_def)

lemma sgf_moves_on_board:
  "(\<forall>m \<in> set (sgf_moves bs ws). on_board sz m) \<longleftrightarrow>
     (\<forall>st \<in> set bs \<union> set ws.
        1 \<le> GR_A st \<and> GR_A st \<le> sz \<and> 1 \<le> GR_B st \<and> GR_B st \<le> sz)"
  by (simp add: sgf_moves_alternate alternate_set ball_Un on_board_stone)

lemma save_sgf_result:
  assumes "res s = Some r" and "GR_STONES_B r = Some bs" and "GR_STONES_W r = Some ws"
  shows "save_sgf e d (Some f) s =
     (if 1 \<le> GR_BOARD_SIZE r \<and> GR_BOARD_SIZE r \<le> 26
      then if \<forall>st \<in> set bs \<union> set ws.
                1 \<le> GR_A st \<and> GR_A st \<le> GR_BOARD_SIZE r \<and>
                1 \<le> GR_B st \<and> GR_B st \<le> GR_BOARD_SIZE r
           then (case open_wb e f of
                   Some err \<Rightarrow> Inl err
                 | None \<Rightarrow>
                     Inr (f, \<lparr>game_size = GR_BOARD_SIZE r, main_sequence = sgf_moves bs ws\<rparr>))
           else Inl ValueError
      else Inl ValueError)"
  using assms
  by (simp add: save_sgf_def board_size_def Sgf_game_def set_moves_all
      sgf_moves_on_board [symmetric] del: Un_iff)

lemma save_sgf_name:
  "img_file s = Some g \<Longrightarrow> res s = Some r \<Longrightarrow>
   save_sgf e d None s = save_sgf e d (Some (with_suffix e g ''.sgf'')) s"
  by (simp add: save_sgf_def)

text \<open>
  Claim C7. Without a result \<open>save_sgf\<close> raises the exception ``Recognition results
  are not available''. With a result whose board size is one the game library accepts
  (1 to 26) and whose stones lie on the board, and a file that can be opened, it writes,
  to the given file or else to the image file's name with the suffix \<open>.sgf\<close>, a game
  record whose size is the result's board size and whose moves are the black and the
  white stones taken alternately by index, black first, the longer list continuing
  alone: for \<open>n\<close> below both lengths the moves \<open>2n\<close> and \<open>2n + 1\<close> are the \<open>n\<close>-th
  black and the \<open>n\<close>-th white stone, and the black moves and the white moves each keep
  their order. Each move is placed at (row - 1, column - 1) of its stone's one-based
  grid position. With another board size, or a stone off the board, the library raises
  \<^verbatim>\<open>ValueError\<close> and nothing is written.
\<close>

theorem save_sgf_export:
  "(res s = None \<longrightarrow>
      save_sgf e d fn s = Inl (Exception ''Recognition results are not available'')) \<and>
   (res s = Some r \<and> GR_STONES_B r = Some bs \<and> GR_STONES_W r = Some ws \<and>
    1 \<le> GR_BOARD_SIZE r \<and> GR_BOARD_SIZE r \<le> 26 \<and>
    (\<forall>st \<in> set bs \<union> set ws.
       1 \<le> GR_A st \<and> GR_A st \<le> GR_BOARD_SIZE r \<and> 1 \<le> GR_B st \<and> GR_B st \<le> GR_BOARD_SIZE r) \<longrightarrow>
      (open_wb e f = None \<longrightarrow>
         save_sgf e d (Some f) s =
           Inr (f, \<lparr>game_size = GR_BOARD_SIZE r, main_sequence = sgf_moves bs ws\<rparr>)) \<and>
      (img_file s = Some g \<and> open_wb e (with_suffix e g ''.sgf'') = None \<longrightarrow>
         save_sgf e d None s =
           Inr (with_suffix e g ''.sgf'',
                \<lparr>game_size = GR_BOARD_SIZE r, main_sequence = sgf_moves bs ws\<rparr>))) \<and>
   (res s = Some r \<and> GR_STONES_B r = Some bs \<and> GR_STONES_W r = Some ws \<and>
    (GR_BOARD_SIZE r < 1 \<or> 26 < GR_BOARD_SIZE r \<or>
     (\<exists>st \<in> set bs \<union> set ws.
        GR_A st < 1 \<or> GR_BOARD_SIZE r < GR_A st \<or> GR_B st < 1 \<or> GR_BOARD_SIZE r < GR_B st)) \<longrightarrow>
      save_sgf e d (Some f) s = Inl ValueError) \<and>
   sgf_moves bs ws =
     alternate (map (\<lambda>st. (CHR ''b'', GR_B st - 1, GR_A st - 1)) bs)
               (map (\<lambda>st. (CHR ''w'', GR_B st - 1, GR_A st - 1)) ws) \<and>
   length (sgf_moves bs ws) = length bs + length ws \<and>
   (n < length bs \<and> n < length ws \<longrightarrow>
      sgf_moves bs ws ! (2 * n) = (CHR ''b'', GR_B (bs ! n) - 1, GR_A (bs ! n) - 1) \<and>
      sgf_moves bs ws ! (2 * n + 1) = (CHR ''w'', GR_B (ws ! n) - 1, GR_A (ws ! n) - 1)) \<and>
   filter (\<lambda>m. fst m = CHR ''b'') (sgf_moves bs ws) =
     map (\<lambda>st. (CHR ''b'', GR_B st - 1, GR_A st - 1)) bs \<and>
   filter (\<lambda>m. fst m \<noteq> CHR ''b'') (sgf_moves bs ws) =
     map (\<lambda>st. (CHR ''w'', GR_B st - 1, GR_A st - 1)) ws"
proof -
  have 1: "res s = None \<longrightarrow>
      save_sgf e d fn s = Inl (Exception ''Recognition results are not available'')"
    by (simp add: save_sgf_def)
  have 2: "res s = Some r \<and> GR_STONES_B r = Some bs \<and> GR_STONES_W r = Some ws \<and>
    1 \<le> GR_BOARD_SIZE r \<and> GR_BOARD_SIZE r \<le> 26 \<and>
    (\<forall>st \<in> set bs \<union> set ws.
       1 \<le> GR_A st \<and> GR_A st \<le> GR_BOARD_SIZE r \<and> 1 \<le> GR_B st \<and> GR_B st \<le> GR_BOARD_SIZE r) \<longrightarrow>
      (open_wb e f = None \<longrightarrow>
         save_sgf e d (Some f) s =
           Inr (f, \<lparr>game_size = GR_BOARD_SIZE r, main_sequence = sgf_moves bs ws\<rparr>)) \<and>
      (img_file s = Some g \<and> open_wb e (with_suffix e g ''.sgf'') = None \<longrightarrow>
         save_sgf e d None s =
           Inr (with_suffix e g ''.sgf'',
                \<lparr>game_size = GR_BOARD_SIZE r, main_sequence = sgf_moves bs ws\<rparr>))"
  proof (intro impI, elim conjE)
    assume a: "res s = Some r" "GR_STONES_B r = Some bs" "GR_STONES_W r = Some ws"
      and sz: "1 \<le> GR_BOARD_SIZE r" "GR_BOARD_SIZE r \<le> 26"
      and on: "\<forall>st \<in> set bs \<union> set ws.
         1 \<le> GR_A st \<and> GR_A st \<le> GR_BOARD_SIZE r \<and> 1 \<le> GR_B st \<and> GR_B st \<le> GR_BOARD_SIZE r"
    have f: "save_sgf e d (Some f') s =
        (case open_wb e f' of
           Some err \<Rightarrow> Inl err
         | None \<Rightarrow> Inr (f', \<lparr>game_size = GR_BOARD_SIZE r, main_sequence = sgf_moves bs ws\<rparr>))" for f'
      unfolding save_sgf_result [OF a] using sz on by (simp del: Un_iff)
    show "(open_wb e f = None \<longrightarrow>
         save_sgf e d (Some f) s =
           Inr (f, \<lparr>game_size = GR_BOARD_SIZE r, main_sequence = sgf_moves bs ws\<rparr>)) \<and>
      (img_file s = Some g \<and> open_wb e (with_suffix e g ''.sgf'') = None \<longrightarrow>
         save_sgf e d None s =
           Inr (with_suffix e g ''.sgf'',
                \<lparr>game_size = GR_BOARD_SIZE r, main_sequence = sgf_moves bs ws\<rparr>))"
      using a(1) by (auto simp: f save_sgf_name)
  qed
  have 3: "res s = Some r \<and> GR_STONES_B r = Some bs \<and> GR_STONES_W r = Some ws \<and>
    (GR_BOARD_SIZE r < 1 \<or> 26 < GR_BOARD_SIZE r \<or>
     (\<exists>st \<in> set bs \<union> set ws.
        GR_A st < 1 \<or> GR_BOARD_SIZE r < GR_A st \<or> GR_B st < 1 \<or> GR_BOARD_SIZE r < GR_B st)) \<longrightarrow>
      save_sgf e d (Some f) s = Inl ValueError"
  proof (intro impI, elim conjE)
    assume a: "res s = Some r" "GR_STONES_B r = Some bs" "GR_STONES_W r = Some ws"
      and bad: "GR_BOARD_SIZE r < 1 \<or> 26 < GR_BOARD_SIZE r \<or>
     (\<exists>st \<in> set bs \<union> set ws.
        GR_A st < 1 \<or> GR_BOARD_SIZE r < GR_A st \<or> GR_B st < 1 \<or> GR_BOARD_SIZE r < GR_B st)"
    have "\<not> (1 \<le> GR_BOARD_SIZE r \<and> GR_BOARD_SIZE r \<le> 26) \<or>
        \<not> (\<forall>st \<in> set bs \<union> set ws.
             1 \<le> GR_A st \<and> GR_A st \<le> GR_BOARD_SIZE r \<and>
             1 \<le> GR_B st \<and> GR_B st \<le> GR_BOARD_SIZE r)"
      using bad by (auto simp: not_le)
    then show "save_sgf e d (Some f) s = Inl ValueError"
      unfolding save_sgf_result [OF a] by (auto simp del: Un_iff)
  qed
  have 4: "length (sgf_moves bs ws) = length bs + length ws"
    by (simp add: sgf_moves_alternate alternate_length)
  have 5: "n < length bs \<and> n < length ws \<longrightarrow>
      sgf_moves bs ws ! (2 * n) = (CHR ''b'', GR_B (bs ! n) - 1, GR_A (bs ! n) - 1) \<and>
      sgf_moves bs ws ! (2 * n + 1) = (CHR ''w'', GR_B (ws ! n) - 1, GR_A (ws ! n) - 1)"
    using alternate_nth [of n "map (\<lambda>st. (CHR ''b'', GR_B st - 1, GR_A st - 1)) bs"
        "map (\<lambda>st. (CHR ''w'', GR_B st - 1, GR_A st - 1)) ws"]
    by (simp add: sgf_moves_alternate)
  have 6: "filter (\<lambda>m. fst m = CHR ''b'') (sgf_moves bs ws) =
     map (\<lambda>st. (CHR ''b'', GR_B st - 1, GR_A st - 1)) bs \<and>
   filter (\<lambda>m. fst m \<noteq> CHR ''b'') (sgf_moves bs ws) =
     map (\<lambda>st. (CHR ''w'', GR_B st - 1, GR_A st - 1)) ws"
    unfolding sgf_moves_alternate
    by (rule alternate_filter) auto
  from 1 2 3 4 5 6 sgf_moves_alternate [of bs ws] show ?thesis
    by (intro conjI) (assumption | blast)+
qed

text \<open>
  The empty session fails; the session with two black stones and one white stone on a
  board of size 9 writes black, white, black; the session with a black stone in column
  10 of that board writes nothing.
\<close>

theorem save_sgf_export_witness:
  "res empty_session = None \<and>
   save_sgf stub_env 19 (Some ''out.sgf'') empty_session =
     Inl (Exception ''Recognition results are not available'') \<and>
   save_sgf stub_env 19 None loaded_session =
     Inr (''board.sgf'',
          \<lparr>game_size = 9,
           main_sequence = [(CHR ''b'', 0, 0), (CHR ''w'', 2, 1), (CHR ''b'', 1, 2)]\<rparr>) \<and>
   save_sgf stub_env 19 (Some ''out.sgf'') off_board_session = Inl ValueError"
proof -
  have e: "res empty_session = None"
    by (simp add: empty_session_def)
  have l: "res loaded_session = Some two_one_result \<and>
      GR_STONES_B two_one_result = Some [stone_a1, stone_c2] \<and>
      GR_STONES_W two_one_result = Some [stone_b3] \<and>
      1 \<le> GR_BOARD_SIZE two_one_result \<and> GR_BOARD_SIZE two_one_result \<le> 26 \<and>
      (\<forall>st \<in> set [stone_a1, stone_c2] \<union> set [stone_b3].
         1 \<le> GR_A st \<and> GR_A st \<le> GR_BOARD_SIZE two_one_result \<and>
         1 \<le> GR_B st \<and> GR_B st \<le> GR_BOARD_SIZE two_one_result)"
    and g: "img_file loaded_session = Some ''board.png'' \<and>
      open_wb stub_env (with_suffix stub_env ''board.png'' ''.sgf'') = None"
    by (simp_all add: loaded_session_def two_one_result_def stone_a1_def stone_c2_def
        stone_b3_def stub_env_def)
  have o: "res off_board_session = Some off_board_result \<and>
      GR_STONES_B off_board_result = Some [stone_a1, stone_k1] \<and>
      GR_STONES_W off_board_result = Some [stone_b3] \<and>
      (GR_BOARD_SIZE off_board_result < 1 \<or> 26 < GR_BOARD_SIZE off_board_result \<or>
       (\<exists>st \<in> set [stone_a1, stone_k1] \<union> set [stone_b3].
          GR_A st < 1 \<or> GR_BOARD_SIZE off_board_result < GR_A st \<or>
          GR_B st < 1 \<or> GR_BOARD_SIZE off_board_result < GR_B st))"
    by (simp add: off_board_session_def off_board_result_def stone_k1_def)
  have 1: "save_sgf stub_env 19 (Some ''out.sgf'') empty_session =
     Inl (Exception ''Recognition results are not available'')"
    using save_sgf_export [of empty_session stub_env 19 "Some ''out.sgf''"] e by blast
  have 2: "save_sgf stub_env 19 None loaded_session =
      Inr (with_suffix stub_env ''board.png'' ''.sgf'',
           \<lparr>game_size = GR_BOARD_SIZE two_one_result,
            main_sequence = sgf_moves [stone_a1, stone_c2] [stone_b3]\<rparr>)"
    using save_sgf_export [of loaded_session stub_env 19 _ two_one_result
        "[stone_a1, stone_c2]" "[stone_b3]" _ "''board.png''"] l g by blast
  have 3: "sgf_moves [stone_a1, stone_c2] [stone_b3] =
     alternate (map (\<lambda>st. (CHR ''b'', GR_B st - 1, GR_A st - 1)) [stone_a1, stone_c2])
               (map (\<lambda>st. (CHR ''w'', GR_B st - 1, GR_A st - 1)) [stone_b3])"
    using save_sgf_export [of loaded_session stub_env 19 None two_one_result
        "[stone_a1, stone_c2]" "[stone_b3]"] by blast
  have 4: "save_sgf stub_env 19 (Some ''out.sgf'') off_board_session = Inl ValueError"
    using save_sgf_export [of off_board_session stub_env 19 _ off_board_result
        "[stone_a1, stone_k1]" "[stone_b3]" "''out.sgf''"] o
    by blast
  show ?thesis
    using e 1 4 unfolding 2 3
    by (simp add: stub_env_def two_one_result_def stone_a1_def stone_c2_def stone_b3_def)
qed

end
